theory Spec2Isabelle
  imports Main
begin

section \<open>Strings\<close>

text \<open>
  A JavaScript string is modelled as a \<^typ>\<open>string\<close> (a list of characters). The
  characters the definition language inspects are all ASCII: quotes, brackets, braces,
  the backslash, white space, letters, digits and the underscore. On ASCII text the
  model and the runtime agree character by character. Outside ASCII a character stands
  for a byte of the UTF-8 encoding, which the comparisons and searches for ASCII
  characters pass over as the runtime passes over the code units; the case mapping, the
  white space and the lengths of the runtime, which follow Unicode and count UTF-16 code
  units, are not modelled there. The results below that depend on these say \<open>ascii\<close> of
  the text they are about.
\<close>

definition ascii :: "string \<Rightarrow> bool" where
  "ascii s = list_all (\<lambda>c. of_char c < (128::nat)) s"

abbreviation bslash :: char where "bslash \<equiv> CHR 0x5C"
abbreviation dquote :: char where "dquote \<equiv> CHR 0x22"
abbreviation squote :: char where "squote \<equiv> CHR 0x27"
abbreviation newline :: char where "newline \<equiv> CHR 0x0A"

text \<open>\<^verbatim>\<open>s.startsWith(p)\<close>\<close>

fun startsWith :: "string \<Rightarrow> string \<Rightarrow> bool" where
  "startsWith s [] = True"
| "startsWith [] (p # ps) = False"
| "startsWith (c # cs) (p # ps) = (c = p \<and> startsWith cs ps)"

text \<open>
  \<^verbatim>\<open>s.replace(/pat/g, rep)\<close> for a pattern that is a non-empty literal and a
  replacement text without \<^verbatim>\<open>$\<close>: the matches are found from left to right and do
  not overlap; the search resumes after each match, in the input, never in the
  replacement text.
\<close>

fun replaceAll :: "string \<Rightarrow> string \<Rightarrow> string \<Rightarrow> string" where
  "replaceAll pat rep [] = []"
| "replaceAll pat rep (c # cs) =
     (if pat \<noteq> [] \<and> startsWith (c # cs) pat
      then rep @ replaceAll pat rep (drop (length pat - 1) cs)
      else c # replaceAll pat rep cs)"

section \<open>Escaping of REPLACE originals\<close>

text \<open>
  The generator (\<^verbatim>\<open>generateKlore\<close>):
  \<^verbatim>\<open>r.original.replace(/\\/g, '\\\\').replace(/"/g, '\\"').replace(/\n/g, '\\n')\<close>
\<close>

definition escapeOriginal :: "string \<Rightarrow> string" where
  "escapeOriginal s =
     replaceAll [newline] [bslash, CHR ''n'']
       (replaceAll [dquote] [bslash, dquote]
         (replaceAll [bslash] [bslash, bslash] s))"

text \<open>
  The parser (\<^verbatim>\<open>parseReplacement\<close>):
  \<^verbatim>\<open>rawOriginal.replace(/\\n/g, '\n').replace(/\\"/g, '"').replace(/\\\\/g, '\\')\<close>
\<close>

definition unescapeOriginal :: "string \<Rightarrow> string" where
  "unescapeOriginal s =
     replaceAll [bslash, bslash] [bslash]
       (replaceAll [bslash, dquote] [dquote]
         (replaceAll [bslash, CHR ''n''] [newline] s))"

section \<open>Further string primitives of the runtime\<close>

text \<open>
  White space as \<^verbatim>\<open>trim()\<close> and the regular-expression class \<^verbatim>\<open>\s\<close> see it
  (tab, line feed, vertical tab, form feed, carriage return, space); the line
  terminators that \<^verbatim>\<open>.\<close> does not match; the word characters of \<^verbatim>\<open>\w\<close>.
  Case mapping acts on the ASCII letters.
\<close>

definition isSpace :: "char \<Rightarrow> bool" where
  "isSpace c = (c \<in> set [CHR 0x09, CHR 0x0A, CHR 0x0B, CHR 0x0C, CHR 0x0D, CHR 0x20])"

definition isLineTerminator :: "char \<Rightarrow> bool" where
  "isLineTerminator c = (c = CHR 0x0A \<or> c = CHR 0x0D)"

definition lowerLetters :: string where
  "lowerLetters = ''abcdefghijklmnopqrstuvwxyz''"

definition upperLetters :: string where
  "upperLetters = ''ABCDEFGHIJKLMNOPQRSTUVWXYZ''"

definition isWordChar :: "char \<Rightarrow> bool" where
  "isWordChar c = (c \<in> set (upperLetters @ lowerLetters @ ''0123456789_''))"

definition toUpperChar :: "char \<Rightarrow> char" where
  "toUpperChar c = (case map_of (zip lowerLetters upperLetters) c of Some u \<Rightarrow> u | None \<Rightarrow> c)"

definition toLowerChar :: "char \<Rightarrow> char" where
  "toLowerChar c = (case map_of (zip upperLetters lowerLetters) c of Some l \<Rightarrow> l | None \<Rightarrow> c)"

definition toUpperCase :: "string \<Rightarrow> string" where
  "toUpperCase s = map toUpperChar s"

definition toLowerCase :: "string \<Rightarrow> string" where
  "toLowerCase s = map toLowerChar s"

definition trim :: "string \<Rightarrow> string" where
  "trim s = rev (dropWhile isSpace (rev (dropWhile isSpace s)))"

text \<open>\<^verbatim>\<open>s.split(c)\<close> for a one-character separator: never the empty list.\<close>

fun splitOn :: "char \<Rightarrow> string \<Rightarrow> string list" where
  "splitOn c [] = [[]]"
| "splitOn c (x # xs) =
     (if x = c then [] # splitOn c xs
      else case splitOn c xs of [] \<Rightarrow> [[x]] | l # ls \<Rightarrow> (x # l) # ls)"

text \<open>\<^verbatim>\<open>xs.join(sep)\<close>\<close>

fun joinWith :: "string \<Rightarrow> string list \<Rightarrow> string" where
  "joinWith sep [] = []"
| "joinWith sep [x] = x"
| "joinWith sep (x # y # ys) = x @ sep @ joinWith sep (y # ys)"

text \<open>\<^verbatim>\<open>s.includes(p)\<close> and \<^verbatim>\<open>s.indexOf(p)\<close> (\<open>None\<close> for -1).\<close>

fun includesStr :: "string \<Rightarrow> string \<Rightarrow> bool" where
  "includesStr [] p = (p = [])"
| "includesStr (c # cs) p = (startsWith (c # cs) p \<or> includesStr cs p)"

fun indexOf :: "string \<Rightarrow> string \<Rightarrow> nat option" where
  "indexOf [] p = (if p = [] then Some 0 else None)"
| "indexOf (c # cs) p =
     (if startsWith (c # cs) p then Some 0 else map_option Suc (indexOf cs p))"

text \<open>
  \<^verbatim>\<open>xs[i]\<close> on an array is \<^verbatim>\<open>undefined\<close> out of range; \<^verbatim>\<open>a || b\<close> on strings
  takes \<open>b\<close> when \<open>a\<close> is \<^verbatim>\<open>undefined\<close> or empty.
\<close>

definition at :: "'a list \<Rightarrow> nat \<Rightarrow> 'a option" where
  "at xs i = (if i < length xs then Some (xs ! i) else None)"

definition orElse :: "string option \<Rightarrow> string \<Rightarrow> string" where
  "orElse a b = (case a of None \<Rightarrow> b | Some x \<Rightarrow> if x = [] then b else x)"

text \<open>A prefix test that ignores case, as a regular expression with the flag \<^verbatim>\<open>i\<close> does.\<close>

definition startsWithCI :: "string \<Rightarrow> string \<Rightarrow> bool" where
  "startsWithCI s p = startsWith (toUpperCase s) (toUpperCase p)"

text \<open>
  A plain object used as a dictionary inherits the properties of \<^verbatim>\<open>Object.prototype\<close>:
  reading one of these names from an object that has no such key of its own gives the
  inherited function (for \<^verbatim>\<open>__proto__\<close> the prototype object), not \<^verbatim>\<open>undefined\<close>. All of
  them are truthy and none has a method \<^verbatim>\<open>push\<close>. \<open>inheritedText\<close> is what such a value
  becomes inside a template literal.
\<close>

definition inheritedNames :: "string list" where
  "inheritedNames =
     [''constructor'', ''__defineGetter__'', ''__defineSetter__'', ''hasOwnProperty'',
      ''__lookupGetter__'', ''__lookupSetter__'', ''isPrototypeOf'', ''propertyIsEnumerable'',
      ''toString'', ''valueOf'', ''__proto__'', ''toLocaleString'']"

text \<open>
  Reading \<^verbatim>\<open>obj[k]\<close>: the value the object has of its own, else the inherited one, else
  \<^verbatim>\<open>undefined\<close>. Writing \<^verbatim>\<open>obj[k] = v\<close> makes or changes the object's own property,
  but for \<^verbatim>\<open>__proto__\<close>: unless the object has that key of its own, the assignment goes
  to the accessor of \<^verbatim>\<open>Object.prototype\<close>, which ignores a string.
\<close>

datatype 'a found = Own 'a | Inherited | Undefined

definition objGet :: "(string \<rightharpoonup> 'a) \<Rightarrow> string \<Rightarrow> 'a found" where
  "objGet obj k =
     (case obj k of
        Some v \<Rightarrow> Own v
      | None \<Rightarrow> if k \<in> set inheritedNames then Inherited else Undefined)"

definition objSet :: "(string \<rightharpoonup> 'a) \<Rightarrow> string \<Rightarrow> 'a \<Rightarrow> (string \<rightharpoonup> 'a)" where
  "objSet obj k v = (if k = ''__proto__'' \<and> obj k = None then obj else obj(k \<mapsto> v))"

definition inheritedText :: "string \<Rightarrow> string" where
  "inheritedText k =
     (if k = ''__proto__'' then ''[object Object]''
      else if k = ''constructor'' then ''function Object() { [native code] }''
      else ''function '' @ k @ ''() { [native code] }'')"

section \<open>The template model\<close>

text \<open>
  The interfaces of the types module. The \<^verbatim>\<open>type\<close> of a variable is one of six string
  literals for the type checker only; at run time it is a string, and the parser casts
  whatever it read, so the field is a string here.
\<close>

record KloreVariable =
  var_name :: string
  var_type :: string
  var_defaultValue :: string
  var_required :: bool

record KloreGroup =
  grp_name :: string
  grp_variables :: "string list"

record KloreReplacement =
  rep_original :: string
  rep_variable :: string
  rep_filePatterns :: "string list"

record KloreConditional =
  cond_variable :: string
  cond_replacements :: "KloreReplacement list"

record KloreTemplate =
  name :: string
  version :: string
  author :: string
  description :: string
  framework :: "string option"
  requires :: "string list option"
  variables :: "KloreVariable list"
  groups :: "KloreGroup list"
  replacements :: "KloreReplacement list"
  conditionals :: "KloreConditional list"
  onInstall :: "string list option"
  aiHints :: "string list option"

definition recognizedTypes :: "string list" where
  "recognizedTypes = [''STRING'', ''COLOR'', ''EMAIL'', ''PHONE'', ''URL'', ''NUMBER'']"

section \<open>The definition parser\<close>

subsection \<open>Tokens\<close>

text \<open>
  The text up to the next occurrence of a closing character and the text after it;
  \<open>None\<close> when the closing character does not occur.
\<close>

fun takeUntil :: "char \<Rightarrow> string \<Rightarrow> (string \<times> string) option" where
  "takeUntil q [] = None"
| "takeUntil q (c # cs) =
     (if c = q then Some ([], cs)
      else case takeUntil q cs of None \<Rightarrow> None | Some (a, r) \<Rightarrow> Some (c # a, r))"

text \<open>\<^verbatim>\<open>\[.*?\]\<close> after the opening bracket: \<^verbatim>\<open>.\<close> stops at a line terminator.\<close>

fun takeBracket :: "string \<Rightarrow> (string \<times> string) option" where
  "takeBracket [] = None"
| "takeBracket (c # cs) =
     (if c = CHR '']'' then Some ([], cs)
      else if isLineTerminator c then None
      else case takeBracket cs of None \<Rightarrow> None | Some (a, r) \<Rightarrow> Some (c # a, r))"

lemma takeUntil_length: "takeUntil q s = Some (a, r) \<Longrightarrow> length r < length s"
  by (induction s arbitrary: a r) (auto split: if_splits option.splits)

lemma takeBracket_length: "takeBracket s = Some (a, r) \<Longrightarrow> length r < length s"
  by (induction s arbitrary: a r) (auto split: if_splits option.splits)

text \<open>
  \<^verbatim>\<open>tokenize\<close>: all matches of \<^verbatim>\<open>/"[^"]*"|'[^']*'|\[.*?\]|\S+/g\<close>, from left to
  right. At a position the alternatives are tried in this order; white space starts no
  token; a quote or bracket that is never closed starts a run of non-space characters.
\<close>

function tokenize :: "string \<Rightarrow> string list" where
  "tokenize [] = []"
| "tokenize (c # cs) =
     (case (if c = dquote then takeUntil dquote cs
            else if c = squote then takeUntil squote cs
            else None) of
        Some (a, r) \<Rightarrow> (c # a @ [c]) # tokenize r
      | None \<Rightarrow>
          (case (if c = CHR ''['' then takeBracket cs else None) of
             Some (a, r) \<Rightarrow> (c # a @ '']'') # tokenize r
           | None \<Rightarrow>
               if isSpace c then tokenize cs
               else (c # takeWhile (\<lambda>x. \<not> isSpace x) cs)
                      # tokenize (dropWhile (\<lambda>x. \<not> isSpace x) cs)))"
  by pat_completeness auto
termination
  by (relation "measure length")
     (auto split: if_splits dest: takeUntil_length takeBracket_length
           simp: length_dropWhile_le less_Suc_eq_le)

text \<open>
  \<^verbatim>\<open>extractString\<close>: the first match of \<^verbatim>\<open>/"([^"]*)"|'([^']*)'/\<close>; its content, or
  the empty string.
\<close>

fun extractString :: "string \<Rightarrow> string" where
  "extractString [] = []"
| "extractString (c # cs) =
     (case (if c = dquote then takeUntil dquote cs
            else if c = squote then takeUntil squote cs
            else None) of
        Some (a, r) \<Rightarrow> a
      | None \<Rightarrow> extractString cs)"

text \<open>The first match of \<^verbatim>\<open>/\[([^\]]*)\]/\<close>: its content.\<close>

fun matchArray :: "string \<Rightarrow> string option" where
  "matchArray [] = None"
| "matchArray (c # cs) =
     (case (if c = CHR ''['' then takeUntil (CHR '']'') cs else None) of
        Some (a, r) \<Rightarrow> Some a
      | None \<Rightarrow> matchArray cs)"

text \<open>\<^verbatim>\<open>s.replace(/["']/g, '')\<close>\<close>

definition stripQuotes :: "string \<Rightarrow> string" where
  "stripQuotes s = filter (\<lambda>c. c \<noteq> dquote \<and> c \<noteq> squote) s"

definition extractArray :: "string \<Rightarrow> string list" where
  "extractArray line =
     (case matchArray line of
        None \<Rightarrow> []
      | Some m \<Rightarrow> filter (\<lambda>s. length s > 0) (map (\<lambda>s. stripQuotes (trim s)) (splitOn (CHR '','') m)))"

subsection \<open>Variables and groups\<close>

text \<open>
  \<^verbatim>\<open>parseVariable\<close>, for \<^verbatim>\<open>VAR name TYPE "default" [REQUIRED]\<close>: the fields are read
  by position from the tokens; the type is the third token in upper case, cast to the
  variable type without a check, and \<^verbatim>\<open>'STRING'\<close> only when there is no third token.
\<close>

definition parseVariable :: "string list \<Rightarrow> KloreVariable" where
  "parseVariable tokens =
     \<lparr> var_name = orElse (at tokens 1) [],
       var_type = orElse (map_option toUpperCase (at tokens 2)) ''STRING'',
       var_defaultValue = (case at tokens 3 of None \<Rightarrow> [] | Some t \<Rightarrow> stripQuotes t),
       var_required = list_ex (\<lambda>t. toUpperCase t = ''REQUIRED'') tokens \<rparr>"

text \<open>\<^verbatim>\<open>/^ASK\s+(\w+)/i\<close>\<close>

definition matchAskName :: "string \<Rightarrow> string option" where
  "matchAskName line =
     (if startsWithCI line ''ASK''
      then let r = drop 3 line;
               w = takeWhile isWordChar (dropWhile isSpace r)
           in if takeWhile isSpace r \<noteq> [] \<and> w \<noteq> [] then Some w else None
      else None)"

text \<open>\<^verbatim>\<open>/DEFAULT\s+"([^"]*)"/i\<close>: at one position, then at the leftmost position.\<close>

definition defaultAt :: "string \<Rightarrow> string option" where
  "defaultAt s =
     (if startsWithCI s ''DEFAULT''
      then let r = drop 7 s
           in if takeWhile isSpace r = [] then None
              else (case dropWhile isSpace r of
                      [] \<Rightarrow> None
                    | c # cs \<Rightarrow> if c = dquote then map_option fst (takeUntil dquote cs) else None)
      else None)"

fun matchDefault :: "string \<Rightarrow> string option" where
  "matchDefault [] = None"
| "matchDefault (c # cs) =
     (case defaultAt (c # cs) of Some d \<Rightarrow> Some d | None \<Rightarrow> matchDefault cs)"

text \<open>
  \<^verbatim>\<open>parseAsk\<close>, for \<^verbatim>\<open>ASK varName "question" DEFAULT "value" [REQUIRED]\<close>: the type is
  inferred from the name (\<open>inferType\<close>).
\<close>

definition inferType :: "string \<Rightarrow> string" where
  "inferType vname =
     (let lname = toLowerCase vname
      in if includesStr lname ''color'' then ''COLOR''
         else if includesStr lname ''email'' then ''EMAIL''
         else if includesStr lname ''phone'' then ''PHONE''
         else if includesStr lname ''url'' then ''URL''
         else ''STRING'')"

definition parseAsk :: "string \<Rightarrow> KloreVariable" where
  "parseAsk line =
     (let required = includesStr (toUpperCase line) ''REQUIRED'';
          name = orElse (matchAskName line) [];
          defaultValue = orElse (matchDefault line) []
      in \<lparr> var_name = name, var_type = inferType name,
            var_defaultValue = defaultValue, var_required = required \<rparr>)"

text \<open>\<^verbatim>\<open>parseGroup\<close>, for \<^verbatim>\<open>GROUP name [var1, var2, var3]\<close>.\<close>

definition parseGroup :: "string list \<Rightarrow> KloreGroup" where
  "parseGroup tokens =
     \<lparr> grp_name = orElse (at tokens 1) [],
       grp_variables =
         (case matchArray (joinWith '' '' tokens) of
            None \<Rightarrow> []
          | Some m \<Rightarrow> map trim (splitOn (CHR '','') m)) \<rparr>"

subsection \<open>Replacements\<close>

abbreviation catchAll :: string where
  "catchAll \<equiv> [CHR ''*'', CHR ''*'', CHR ''/'', CHR ''*'']"

definition noopReplacement :: KloreReplacement where
  "noopReplacement = \<lparr> rep_original = [], rep_variable = [], rep_filePatterns = [catchAll] \<rparr>"

text \<open>
  The scan for the closing quote of the original: the loop over \<open>i\<close> from 1 with its
  flag \<^verbatim>\<open>escaped\<close>. The first argument is the text from index \<open>i\<close> on; \<open>None\<close> is the
  initial -1 that the loop leaves when it finds no unescaped quote.
\<close>

fun scanOriginalEnd :: "string \<Rightarrow> nat \<Rightarrow> bool \<Rightarrow> nat option" where
  "scanOriginalEnd [] i escaped = None"
| "scanOriginalEnd (c # cs) i escaped =
     (if c = bslash \<and> \<not> escaped then scanOriginalEnd cs (i + 1) True
      else if c = dquote \<and> \<not> escaped then Some i
      else scanOriginalEnd cs (i + 1) False)"

text \<open>\<^verbatim>\<open>/WITH\s+["']?\{\{\s*(\w+)\s*\}\}["']?/i\<close>: at one position, then leftmost.\<close>

definition withAt :: "string \<Rightarrow> string option" where
  "withAt s =
     (if startsWithCI s ''WITH''
      then let r = drop 4 s;
               r1 = dropWhile isSpace r;
               r2 = (case r1 of [] \<Rightarrow> r1 | c # cs \<Rightarrow> if c = dquote \<or> c = squote then cs else r1)
           in if takeWhile isSpace r = [] then None
              else if startsWith r2 ''{{''
              then let r3 = dropWhile isSpace (drop 2 r2);
                       w = takeWhile isWordChar r3;
                       r4 = dropWhile isSpace (dropWhile isWordChar r3)
                   in if w \<noteq> [] \<and> startsWith r4 ''}}'' then Some w else None
              else None
      else None)"

fun matchWith :: "string \<Rightarrow> string option" where
  "matchWith [] = None"
| "matchWith (c # cs) =
     (case withAt (c # cs) of Some v \<Rightarrow> Some v | None \<Rightarrow> matchWith cs)"

text \<open>
  \<^verbatim>\<open>/IN\s+(.+)$/i\<close>: the captured text runs to the end of the input and holds no line
  terminator. When only white space follows \<^verbatim>\<open>IN\<close>, the greedy \<^verbatim>\<open>\s+\<close> gives its last
  character back to the group.
\<close>

definition inAt :: "string \<Rightarrow> string option" where
  "inAt s =
     (if startsWithCI s ''IN''
      then let r = drop 2 s;
               ws = takeWhile isSpace r;
               rest = dropWhile isSpace r
           in if ws = [] then None
              else if rest \<noteq> []
              then (if list_all (\<lambda>c. \<not> isLineTerminator c) rest then Some rest else None)
              else if length ws \<ge> 2 \<and> \<not> isLineTerminator (last ws) then Some [last ws]
              else None
      else None)"

fun matchIn :: "string \<Rightarrow> string option" where
  "matchIn [] = None"
| "matchIn (c # cs) =
     (case inAt (c # cs) of Some v \<Rightarrow> Some v | None \<Rightarrow> matchIn cs)"

text \<open>All matches of \<^verbatim>\<open>/"[^"]+"/g\<close>, without their quotes.\<close>

function quotedPatterns :: "string \<Rightarrow> string list" where
  "quotedPatterns [] = []"
| "quotedPatterns (c # cs) =
     (case (if c = dquote then takeUntil dquote cs else None) of
        Some (a, r) \<Rightarrow> if a \<noteq> [] then a # quotedPatterns r else quotedPatterns cs
      | None \<Rightarrow> quotedPatterns cs)"
  by pat_completeness auto
termination
  by (relation "measure length")
     (auto split: if_splits dest: takeUntil_length)

text \<open>\<^verbatim>\<open>s.indexOf(p)\<close> as the integer the runtime returns, and \<^verbatim>\<open>s.substring(k)\<close>.\<close>

definition jsIndexOf :: "string \<Rightarrow> string \<Rightarrow> int" where
  "jsIndexOf s p = (case indexOf s p of None \<Rightarrow> -1 | Some i \<Rightarrow> int i)"

definition substringFrom :: "string \<Rightarrow> int \<Rightarrow> string" where
  "substringFrom s k = drop (nat k) s"

text \<open>
  \<^verbatim>\<open>parseReplacement\<close>, for \<^verbatim>\<open>REPLACE "original" WITH {{ variable }} IN "pattern"\<close>.
  Nothing inside its \<^verbatim>\<open>try\<close> block can raise.
\<close>

definition textAfterReplace :: "string \<Rightarrow> string" where
  "textAfterReplace line = trim (substringFrom line (jsIndexOf line ''REPLACE'' + 7))"

definition parseReplacement :: "string \<Rightarrow> KloreReplacement" where
  "parseReplacement line =
     (if \<not> includesStr line ''REPLACE'' \<or> \<not> includesStr line ''WITH'' then noopReplacement
      else
        let afterReplace = textAfterReplace line;
            originalEnd = (if startsWith afterReplace [dquote]
                           then scanOriginalEnd (drop 1 afterReplace) 1 False
                           else None)
        in case originalEnd of
             None \<Rightarrow> noopReplacement
           | Some e \<Rightarrow>
               let rawOriginal = take (e - 1) (drop 1 afterReplace);
                   original = unescapeOriginal rawOriginal;
                   remaining = drop (e + 1) afterReplace;
                   variable = orElse (matchWith remaining) [];
                   filePatterns =
                     (case matchIn remaining of
                        None \<Rightarrow> [catchAll]
                      | Some m \<Rightarrow>
                          (let ps = quotedPatterns m in if ps = [] then [catchAll] else ps))
               in \<lparr> rep_original = original, rep_variable = variable,
                     rep_filePatterns = filePatterns \<rparr>)"

subsection \<open>Lines and the cursor\<close>

text \<open>
  The only failure the parser's code could raise is the call of a method on
  \<^verbatim>\<open>undefined\<close>, where a line or a token is read by index.
\<close>

datatype error = TypeError | SyntaxError | IOError string

text \<open>\<^verbatim>\<open>xs?.push(x)\<close>\<close>

definition pushOpt :: "'a list option \<Rightarrow> 'a \<Rightarrow> 'a list option" where
  "pushOpt xs x = map_option (\<lambda>l. l @ [x]) xs"

text \<open>
  \<^verbatim>\<open>parseOnInstall\<close>: the cursor \<^verbatim>\<open>this.currentLine\<close> is passed and returned. The loop
  stops on the line \<^verbatim>\<open>END\<close>, leaving the cursor on it, or at the end of the lines;
  \<open>blockLine\<close> is what its body does with one line of the block.
\<close>

definition blockLine :: "string \<Rightarrow> KloreTemplate \<Rightarrow> KloreTemplate" where
  "blockLine line template =
     (let trimmed = trim line;
          upperLine = toUpperCase trimmed
      in if startsWith upperLine ''RUN'' then
           (let command = extractString line
            in if command \<noteq> []
               then template\<lparr>onInstall := pushOpt (onInstall template) command\<rparr>
               else template)
         else if startsWith upperLine ''REPLACE'' then
           template\<lparr>replacements := replacements template @ [parseReplacement trimmed]\<rparr>
         else template)"

function onInstallLoop ::
  "string list \<Rightarrow> nat \<Rightarrow> KloreTemplate \<Rightarrow> error + (nat \<times> KloreTemplate)" where
  "onInstallLoop lines cur template =
     (if cur < length lines then
        (case at lines cur of
           None \<Rightarrow> Inl TypeError
         | Some line \<Rightarrow>
             if toUpperCase line = ''END'' then Inr (cur, template)
             else onInstallLoop lines (cur + 1) (blockLine line template))
      else Inr (cur, template))"
  by pat_completeness auto
termination
  by (relation "measure (\<lambda>(lines, cur, template). length lines - cur)") auto

declare onInstallLoop.simps [simp del]

definition parseOnInstall ::
  "string list \<Rightarrow> nat \<Rightarrow> KloreTemplate \<Rightarrow> error + (nat \<times> KloreTemplate)" where
  "parseOnInstall lines cur template = onInstallLoop lines (cur + 1) template"

text \<open>\<^verbatim>\<open>parseLine\<close>: the command is the first token in upper case.\<close>

definition parseLine ::
  "string list \<Rightarrow> nat \<Rightarrow> string \<Rightarrow> KloreTemplate \<Rightarrow> error + (nat \<times> KloreTemplate)" where
  "parseLine lines cur line template =
     (let tokens = tokenize line
      in if length tokens = 0 then Inr (cur, template)
         else case at tokens 0 of
           None \<Rightarrow> Inl TypeError
         | Some t0 \<Rightarrow>
             let command = toUpperCase t0
             in if command = ''NAME'' then Inr (cur, template\<lparr>name := extractString line\<rparr>)
                else if command = ''VERSION'' then Inr (cur, template\<lparr>version := extractString line\<rparr>)
                else if command = ''AUTHOR'' then Inr (cur, template\<lparr>author := extractString line\<rparr>)
                else if command = ''DESCRIPTION''
                  then Inr (cur, template\<lparr>description := extractString line\<rparr>)
                else if command = ''FRAMEWORK''
                  then Inr (cur, template\<lparr>framework := Some (extractString line)\<rparr>)
                else if command = ''REQUIRES''
                  then Inr (cur, template\<lparr>requires := Some (extractArray line)\<rparr>)
                else if command = ''VAR''
                  then Inr (cur, template\<lparr>variables := variables template @ [parseVariable tokens]\<rparr>)
                else if command = ''ASK''
                  then Inr (cur, template\<lparr>variables := variables template @ [parseAsk line]\<rparr>)
                else if command = ''GROUP''
                  then Inr (cur, template\<lparr>groups := groups template @ [parseGroup tokens]\<rparr>)
                else if command = ''REPLACE''
                  then Inr (cur, template\<lparr>replacements := replacements template @ [parseReplacement line]\<rparr>)
                else if command = ''AI_HINT''
                  then Inr (cur, template\<lparr>aiHints := pushOpt (aiHints template) (extractString line)\<rparr>)
                else if command = ''ON_INSTALL'' \<or> command = ''ON''
                  then parseOnInstall lines cur template
                else Inr (cur, template))"

lemma onInstallLoop_cursor:
  "onInstallLoop lines cur template = Inr (cur', template') \<Longrightarrow> cur \<le> cur'"
proof (induction lines cur template rule: onInstallLoop.induct)
  case (1 lines cur template)
  show ?case
  proof (cases "cur < length lines")
    case False
    with "1.prems" show ?thesis by (simp add: onInstallLoop.simps)
  next
    case True
    then have line: "at lines cur = Some (lines ! cur)"
      by (simp add: at_def)
    show ?thesis
    proof (cases "toUpperCase (lines ! cur) = ''END''")
      case True
      with \<open>cur < length lines\<close> line "1.prems" show ?thesis
        by (simp add: onInstallLoop.simps [of lines cur])
    next
      case False
      with \<open>cur < length lines\<close> line "1.prems"
      have "onInstallLoop lines (cur + 1) (blockLine (lines ! cur) template) = Inr (cur', template')"
        by (simp add: onInstallLoop.simps [of lines cur])
      from "1.IH" [OF \<open>cur < length lines\<close> line False this] show ?thesis by simp
    qed
  qed
qed

lemma parseLine_cursor:
  assumes "parseLine lines cur line template = Inr (cur', template')"
  shows "cur \<le> cur'"
proof (cases "tokenize line")
  case Nil
  with assms show ?thesis by (simp add: parseLine_def)
next
  case (Cons t0 ts)
  then have t0: "at (tokenize line) 0 = Some t0" "length (tokenize line) \<noteq> 0"
    by (simp_all add: at_def)
  show ?thesis
  proof (cases "toUpperCase t0 = ''ON_INSTALL'' \<or> toUpperCase t0 = ''ON''")
    case True
    with assms t0 have "onInstallLoop lines (cur + 1) template = Inr (cur', template')"
      by (auto simp add: parseLine_def parseOnInstall_def Let_def)
    from onInstallLoop_cursor [OF this] show ?thesis by simp
  next
    case False
    with assms t0 have "cur' = cur"
      by (simp add: parseLine_def Let_def split: if_splits)
    then show ?thesis by simp
  qed
qed

text \<open>The loop of \<^verbatim>\<open>parse\<close> over the prepared lines.\<close>

function parseLoop :: "string list \<Rightarrow> nat \<Rightarrow> KloreTemplate \<Rightarrow> error + KloreTemplate" where
  "parseLoop lines cur template =
     (if cur < length lines then
        (case parseLine lines cur (lines ! cur) template of
           Inl e \<Rightarrow> Inl e
         | Inr (cur', template') \<Rightarrow> parseLoop lines (cur' + 1) template')
      else Inr template)"
  by pat_completeness auto
termination
proof (relation "measure (\<lambda>(lines, cur, template). length lines - cur)", goal_cases)
  case 1
  show ?case by simp
next
  case (2 lines cur template x2 cur' template')
  then have "parseLine lines cur (lines ! cur) template = Inr (cur', template')"
    by simp
  from parseLine_cursor [OF this] 2(1) show ?case by simp
qed

declare parseLoop.simps [simp del]

definition emptyTemplate :: KloreTemplate where
  "emptyTemplate =
     \<lparr> name = [], version = ''1.0.0'', author = [], description = [],
       framework = None, requires = None,
       variables = [], groups = [], replacements = [], conditionals = [],
       onInstall = Some [], aiHints = Some [] \<rparr>"

text \<open>
  \<^verbatim>\<open>content.split('\n').map(l => l.trim()).filter(l => l && !l.startsWith('#'))\<close>
\<close>

definition keepLine :: "string \<Rightarrow> bool" where
  "keepLine l = (l \<noteq> [] \<and> \<not> startsWith l ''#'')"

definition prepareLines :: "string \<Rightarrow> string list" where
  "prepareLines content = filter keepLine (map trim (splitOn newline content))"

definition parse :: "string \<Rightarrow> error + KloreTemplate" where
  "parse content = parseLoop (prepareLines content) 0 emptyTemplate"

definition parseKlore :: "string \<Rightarrow> error + KloreTemplate" where
  "parseKlore content = parse content"

section \<open>The definition generator\<close>

text \<open>
  The decorations of the generated comment lines (box-drawing characters and emoji) lie
  outside ASCII; they are written as the bytes of their UTF-8 encoding. They occur in
  comment lines only, which the parser drops.
\<close>

definition doubleRule :: string where
  "doubleRule = concat (replicate 39 [CHR 0xE2, CHR 0x95, CHR 0x90])"

definition singleRule :: string where
  "singleRule = concat (replicate 40 [CHR 0xE2, CHR 0x94, CHR 0x80])"

definition boxEmoji :: string where
  "boxEmoji = [CHR 0xF0, CHR 0x9F, CHR 0x93, CHR 0xA6]"

definition rocketEmoji :: string where
  "rocketEmoji = [CHR 0xF0, CHR 0x9F, CHR 0x9A, CHR 0x80]"

definition groupOrder :: "string list" where
  "groupOrder = [''branding'', ''colors'', ''contact'', ''content'', ''social'',
                 ''institution'', ''legal'', ''maps'', ''config'']"

definition groupEmojis :: "(string \<times> string) list" where
  "groupEmojis =
     [(''branding'', [CHR 0xF0, CHR 0x9F, CHR 0x8F, CHR 0xB7, CHR 0xEF, CHR 0xB8, CHR 0x8F]),
      (''colors'', [CHR 0xF0, CHR 0x9F, CHR 0x8E, CHR 0xA8]),
      (''contact'', [CHR 0xF0, CHR 0x9F, CHR 0x93, CHR 0x8D]),
      (''content'', [CHR 0xF0, CHR 0x9F, CHR 0x93, CHR 0x9D]),
      (''social'', [CHR 0xF0, CHR 0x9F, CHR 0x93, CHR 0xB1]),
      (''institution'', [CHR 0xF0, CHR 0x9F, CHR 0x8F, CHR 0xAB]),
      (''legal'', [CHR 0xE2, CHR 0x9A, CHR 0x96, CHR 0xEF, CHR 0xB8, CHR 0x8F]),
      (''maps'', [CHR 0xF0, CHR 0x9F, CHR 0x97, CHR 0xBA, CHR 0xEF, CHR 0xB8, CHR 0x8F]),
      (''config'', [CHR 0xE2, CHR 0x9A, CHR 0x99, CHR 0xEF, CHR 0xB8, CHR 0x8F])]"

definition groupDescriptions :: "(string \<times> string) list" where
  "groupDescriptions =
     [(''branding'', ''Brand Identity''),
      (''colors'', ''Theme Colors''),
      (''contact'', ''Contact Information''),
      (''content'', ''Page Content''),
      (''social'', ''Social Media''),
      (''institution'', ''Organization Info''),
      (''legal'', ''Legal & Copyright''),
      (''maps'', ''Location & Maps''),
      (''config'', ''Configuration'')]"

text \<open>
  \<^verbatim>\<open>generateSmartQuestion\<close>: the hand-written questions by group and name, else a
  question made from the name, with a space before each capital letter. The tables are
  plain objects: in a group that has a table, a name that \<^verbatim>\<open>Object.prototype\<close> defines
  finds the inherited value, which \<^verbatim>\<open>generateKlore\<close> then writes into the line. The
  function is private to the module and \<^verbatim>\<open>generateKlore\<close> calls it with the keys of its
  group order and with \<^verbatim>\<open>other\<close> only.
\<close>

definition questions :: "(string \<times> (string \<times> string) list) list" where
  "questions =
     [(''branding'',
        [(''storeName'', ''What is your store/company name?''),
         (''appName'', ''What is your application name?''),
         (''companyName'', ''What is your company name?''),
         (''tagline'', ''What is your tagline/slogan?''),
         (''storeDescription'', ''Describe your store/company in one paragraph:'')]),
      (''colors'',
        [(''primaryColor'', ''What is your primary brand color? (hex)''),
         (''secondaryColor'', ''What is your secondary color? (hex)''),
         (''accentColor'', ''What is your accent color? (hex)'')]),
      (''contact'',
        [(''email'', ''What is your contact email?''),
         (''phone'', ''What is your phone number?''),
         (''address'', ''What is your business address?''),
         (''businessHours'', ''What are your business hours?'')]),
      (''social'',
        [(''facebookUrl'', ''Enter your Facebook URL:''),
         (''instagramUrl'', ''Enter your Instagram URL:''),
         (''twitterUrl'', ''Enter your Twitter/X URL:''),
         (''youtubeUrl'', ''Enter your YouTube URL:'')])]"

text \<open>\<^verbatim>\<open>varName.replace(/([A-Z])/g, ' $1')\<close>\<close>

definition spaceBeforeCapitals :: "string \<Rightarrow> string" where
  "spaceBeforeCapitals s =
     concat (map (\<lambda>c. if c \<in> set upperLetters then [CHR '' '', c] else [c]) s)"

definition generateSmartQuestion :: "string \<Rightarrow> string \<Rightarrow> string" where
  "generateSmartQuestion varName groupKey =
     (let readable = toLowerCase (trim (spaceBeforeCapitals varName));
          found = (case map_of questions groupKey of
                     None \<Rightarrow> None
                   | Some tab \<Rightarrow>
                       (case map_of tab varName of
                          Some q \<Rightarrow> Some q
                        | None \<Rightarrow> if varName \<in> set inheritedNames
                                  then Some (inheritedText varName) else None))
      in case found of
           Some q \<Rightarrow> q
         | None \<Rightarrow> ''Enter '' @ readable @ '':'')"

text \<open>\<^verbatim>\<open>template.groups.find(g => g.variables.includes(name))\<close>\<close>

definition findGroup :: "KloreTemplate \<Rightarrow> string \<Rightarrow> KloreGroup option" where
  "findGroup template vname = find (\<lambda>g. vname \<in> set (grp_variables g)) (groups template)"

text \<open>
  The dictionaries \<^verbatim>\<open>groupedVars\<close> and \<^verbatim>\<open>replacementsByGroup\<close> are plain objects, filled
  in the order of the template's lists by
  \<^verbatim>\<open>if (!dict[k]) dict[k] = []; dict[k].push(x)\<close>. The map holds the keys the object has
  of its own. Under a key it does not have and \<^verbatim>\<open>Object.prototype\<close> defines, the test
  finds the inherited value, no list is made, and the call of \<^verbatim>\<open>push\<close> on that value
  throws a \<^verbatim>\<open>TypeError\<close>. A variable without a group goes under \<^verbatim>\<open>other\<close>; so does a
  replacement whose group is missing or has an empty name.
\<close>

definition pushTo :: "(string \<rightharpoonup> 'a list) \<Rightarrow> string \<Rightarrow> 'a \<Rightarrow> error + (string \<rightharpoonup> 'a list)" where
  "pushTo m k x =
     (case m k of
        Some l \<Rightarrow> Inr (m(k \<mapsto> l @ [x]))
      | None \<Rightarrow> if k \<in> set inheritedNames then Inl TypeError else Inr (m(k \<mapsto> [x])))"

fun pushAll ::
  "('a \<Rightarrow> string) \<Rightarrow> 'a list \<Rightarrow> (string \<rightharpoonup> 'a list) \<Rightarrow> error + (string \<rightharpoonup> 'a list)" where
  "pushAll key [] m = Inr m"
| "pushAll key (x # xs) m =
     (case pushTo m (key x) x of Inl e \<Rightarrow> Inl e | Inr m' \<Rightarrow> pushAll key xs m')"

definition varGroupName :: "KloreTemplate \<Rightarrow> KloreVariable \<Rightarrow> string" where
  "varGroupName template v =
     (case findGroup template (var_name v) of None \<Rightarrow> ''other'' | Some g \<Rightarrow> grp_name g)"

definition groupedVars :: "KloreTemplate \<Rightarrow> error + (string \<rightharpoonup> KloreVariable list)" where
  "groupedVars template = pushAll (varGroupName template) (variables template) Map.empty"

definition repGroupName :: "KloreTemplate \<Rightarrow> KloreReplacement \<Rightarrow> string" where
  "repGroupName template r =
     orElse (map_option grp_name (findGroup template (rep_variable r))) ''other''"

definition replacementsByGroup ::
  "KloreTemplate \<Rightarrow> error + (string \<rightharpoonup> KloreReplacement list)" where
  "replacementsByGroup template = pushAll (repGroupName template) (replacements template) Map.empty"

text \<open>
  The ASK line of a variable in one of the ordered groups: the default is cut to 100
  characters first and escaped afterwards.
\<close>

definition askLine :: "string \<Rightarrow> KloreVariable \<Rightarrow> string" where
  "askLine groupKey v =
     (let question = generateSmartQuestion (var_name v) groupKey;
          defaultVal0 = var_defaultValue v;
          defaultVal1 = (if length defaultVal0 > 100 then take 100 defaultVal0 @ ''...''
                         else defaultVal0);
          defaultVal = replaceAll [newline] '' '' (replaceAll [dquote] [bslash, dquote] defaultVal1)
      in ''ASK '' @ var_name v @ '' \"'' @ question @ ''\"''
         @ (if defaultVal \<noteq> [] then '' DEFAULT \"'' @ defaultVal @ ''\"'' else [])
         @ (if var_required v then '' REQUIRED'' else []))"

text \<open>The ASK line of an ungrouped variable: the default is escaped first and cut afterwards.\<close>

definition askLineOther :: "KloreVariable \<Rightarrow> string" where
  "askLineOther v =
     (let question = generateSmartQuestion (var_name v) ''other'';
          defaultVal0 = replaceAll [newline] '' ''
                          (replaceAll [dquote] [bslash, dquote] (var_defaultValue v));
          defaultVal = (if length defaultVal0 > 100 then take 100 defaultVal0 @ ''...''
                        else defaultVal0)
      in ''ASK '' @ var_name v @ '' \"'' @ question @ ''\"''
         @ (if defaultVal \<noteq> [] then '' DEFAULT \"'' @ defaultVal @ ''\"'' else [])
         @ (if var_required v then '' REQUIRED'' else []))"

definition groupEmoji :: "string \<Rightarrow> string" where
  "groupEmoji groupKey = orElse (map_of groupEmojis groupKey) boxEmoji"

definition groupDescription :: "string \<Rightarrow> string" where
  "groupDescription groupKey = orElse (map_of groupDescriptions groupKey) groupKey"

definition varSection :: "(string \<rightharpoonup> KloreVariable list) \<Rightarrow> string \<Rightarrow> string list" where
  "varSection grouped groupKey =
     (case grouped groupKey of
        None \<Rightarrow> []
      | Some vars \<Rightarrow>
          if length vars = 0 then []
          else [''# '' @ groupEmoji groupKey @ '' '' @ toUpperCase (groupDescription groupKey),
                ''# '' @ singleRule]
               @ map (askLine groupKey) vars
               @ [[]])"

definition otherSection :: "(string \<rightharpoonup> KloreVariable list) \<Rightarrow> string list" where
  "otherSection grouped =
     (case (case grouped ''other'' of Some vs \<Rightarrow> Some vs | None \<Rightarrow> grouped ''General Settings'') of
        None \<Rightarrow> []
      | Some otherVars \<Rightarrow>
          if length otherVars > 0
          then [''# '' @ boxEmoji @ '' OTHER SETTINGS'', ''# '' @ singleRule]
               @ map askLineOther otherVars
               @ [[]]
          else [])"

text \<open>The REPLACE line of a replacement; its original is escaped and never cut.\<close>

definition replaceLine :: "KloreReplacement \<Rightarrow> string" where
  "replaceLine r =
     (let patterns = joinWith '' '' (map (\<lambda>p. [dquote] @ p @ [dquote]) (rep_filePatterns r));
          original = escapeOriginal (rep_original r)
      in ''    REPLACE \"'' @ original @ ''\" WITH \"{{ '' @ rep_variable r @ '' }}\" IN '' @ patterns)"

definition replacementSection ::
  "(string \<rightharpoonup> KloreReplacement list) \<Rightarrow> string \<Rightarrow> string list" where
  "replacementSection byGroup groupKey =
     (case byGroup groupKey of
        None \<Rightarrow> []
      | Some rs \<Rightarrow>
          if length rs = 0 then []
          else [''    # '' @ groupEmoji groupKey @ '' '' @ groupDescription groupKey]
               @ map replaceLine rs
               @ [[]])"

text \<open>The RUN lines: five default commands when the template declares none.\<close>

definition defaultRunLines :: "string list" where
  "defaultRunLines =
     [''    RUN \"composer install\" MESSAGE \"Installing PHP dependencies...\"'',
      ''    RUN \"php artisan key:generate\" MESSAGE \"Generating app key...\"'',
      ''    RUN \"php artisan migrate --seed\" MESSAGE \"Setting up database...\"'',
      ''    RUN \"npm install\" MESSAGE \"Installing Node dependencies...\"'',
      ''    RUN \"npm run build\" MESSAGE \"Building assets...\"'']"

definition runMessage :: "string \<Rightarrow> string" where
  "runMessage cmd =
     (let msg0 = ''Running '' @ cmd @ ''...'';
          msg1 = (if includesStr cmd ''composer install'' then ''Installing PHP dependencies...'' else msg0);
          msg2 = (if includesStr cmd ''npm install'' then ''Installing Node dependencies...'' else msg1);
          msg3 = (if includesStr cmd ''artisan migrate'' then ''Setting up database...'' else msg2)
      in if includesStr cmd ''npm run build'' then ''Building assets...'' else msg3)"

definition runLines :: "KloreTemplate \<Rightarrow> string list" where
  "runLines template =
     (let commands = (case onInstall template of None \<Rightarrow> [] | Some cs \<Rightarrow> cs)
      in if length commands = 0 then defaultRunLines
         else map (\<lambda>cmd. ''    RUN \"'' @ cmd @ ''\" MESSAGE \"'' @ runMessage cmd @ ''\"'') commands)"

text \<open>\<^verbatim>\<open>s.replace(/\s+/g, '-')\<close>: every maximal run of white space becomes one dash.\<close>

function dashSpaces :: "string \<Rightarrow> string" where
  "dashSpaces [] = []"
| "dashSpaces (c # cs) =
     (if isSpace c then CHR ''-'' # dashSpaces (dropWhile isSpace cs) else c # dashSpaces cs)"
  by pat_completeness auto
termination
  by (relation "measure length") (auto simp: length_dropWhile_le less_Suc_eq_le)

text \<open>
  The lines \<^verbatim>\<open>generateKlore\<close> pushes, in order, and their join. The two dictionaries are
  filled on the way; when either throws, so does \<^verbatim>\<open>generateKlore\<close>, and the lines pushed
  so far are lost with it.
\<close>

definition headerLines :: "KloreTemplate \<Rightarrow> string list" where
  "headerLines template =
     [''# '' @ name template @ '' Template'',
      ''# Generated by Klore AI - Comprehensive Templatization'',
      [],
      ''NAME \"'' @ dashSpaces (toLowerCase (name template)) @ ''-template\"'']
     @ (if version template \<noteq> [] then [''VERSION \"'' @ version template @ ''\"''] else [])
     @ (case framework template of
          None \<Rightarrow> []
        | Some f \<Rightarrow> if f \<noteq> [] then [''FRAMEWORK \"'' @ f @ ''\"''] else [])
     @ [[]]"

definition hintLines :: "KloreTemplate \<Rightarrow> string list" where
  "hintLines template =
     (case aiHints template of
        None \<Rightarrow> []
      | Some hints \<Rightarrow>
          if length hints > 0
          then [''# '' @ doubleRule, ''# PROJECT ANALYSIS'', ''# '' @ doubleRule]
               @ map (\<lambda>hint. ''# '' @ hint) hints
               @ [[]]
          else [])"

definition variableLines :: "(string \<rightharpoonup> KloreVariable list) \<Rightarrow> string list" where
  "variableLines grouped =
     [''# '' @ doubleRule, ''# TEMPLATE VARIABLES'', ''# '' @ doubleRule, []]
     @ concat (map (varSection grouped) groupOrder)
     @ otherSection grouped"

definition installLines ::
  "(string \<rightharpoonup> KloreReplacement list) \<Rightarrow> KloreTemplate \<Rightarrow> string list" where
  "installLines byGroup template =
     [''# '' @ doubleRule, ''# REPLACEMENTS'', ''# '' @ doubleRule, [],
      ''ON INSTALL'', [],
      ''    # Setup environment'',
      ''    COPY \".env.example\" TO \".env\"'',
      []]
     @ concat (map (replacementSection byGroup) (groupOrder @ [''other'']))
     @ [''    # Run setup commands'']
     @ runLines template
     @ [[], ''END'', [],
        ''# '' @ doubleRule, ''# Template ready! '' @ rocketEmoji, ''# '' @ doubleRule]"

definition generateKlore :: "KloreTemplate \<Rightarrow> error + string" where
  "generateKlore template =
     (case groupedVars template of
        Inl e \<Rightarrow> Inl e
      | Inr grouped \<Rightarrow>
          (case replacementsByGroup template of
             Inl e \<Rightarrow> Inl e
           | Inr byGroup \<Rightarrow>
               Inr (joinWith [newline]
                      (headerLines template @ hintLines template @ variableLines grouped
                       @ installLines byGroup template))))"

text \<open>
  The expression \<^verbatim>\<open>parseKlore(generateKlore(template))\<close>: an exception of either call ends
  it.
\<close>

definition regenerate :: "KloreTemplate \<Rightarrow> error + KloreTemplate" where
  "regenerate template =
     (case generateKlore template of Inl e \<Rightarrow> Inl e | Inr content \<Rightarrow> parseKlore content)"

section \<open>The replacement engine\<close>

text \<open>
  \<^verbatim>\<open>replacement.original.replace(/[.*+?^${}()|[\]\\]/g, '\\$&')\<close>: a backslash before
  every character of the class.
\<close>

definition regexSpecials :: string where
  "regexSpecials = ''.*+?^${}()|[]'' @ [bslash]"

definition escapeRegExp :: "string \<Rightarrow> string" where
  "escapeRegExp s = concat (map (\<lambda>c. if c \<in> set regexSpecials then [bslash, c] else [c]) s)"

text \<open>
  \<^verbatim>\<open>new RegExp(escaped, 'g')\<close>, for the patterns made of plain characters and of
  backslash escapes of the characters above: the text such a pattern matches, and nothing
  else. \<open>None\<close> is any other pattern (one with an operator, a character class, a group or
  an anchor, or one the constructor rejects).
\<close>

fun literalOfPattern :: "string \<Rightarrow> string option" where
  "literalOfPattern [] = Some []"
| "literalOfPattern [c] = (if c \<in> set regexSpecials then None else Some [c])"
| "literalOfPattern (c # d # rest) =
     (if c = bslash
      then (if d \<in> set regexSpecials then map_option (Cons d) (literalOfPattern rest) else None)
      else if c \<in> set regexSpecials then None
      else map_option (Cons c) (literalOfPattern (d # rest)))"

text \<open>
  The replacement text of \<^verbatim>\<open>String.prototype.replace\<close> is a template: \<^verbatim>\<open>$$\<close> stands for a
  dollar sign, \<^verbatim>\<open>$&\<close> for the match, \<^verbatim>\<open>$`\<close> for the input before the match and \<^verbatim>\<open>$'\<close> for
  the input after it. The pattern has no capture group, so \<^verbatim>\<open>$1\<close> and the like stay as
  they are.
\<close>

fun expandReplacement :: "string \<Rightarrow> string \<Rightarrow> string \<Rightarrow> string \<Rightarrow> string" where
  "expandReplacement [] matched pre post = []"
| "expandReplacement [c] matched pre post = [c]"
| "expandReplacement (c # d # rest) matched pre post =
     (if c = CHR ''$'' then
        (if d = CHR ''$'' then CHR ''$'' # expandReplacement rest matched pre post
         else if d = CHR ''&'' then matched @ expandReplacement rest matched pre post
         else if d = CHR 0x60 then pre @ expandReplacement rest matched pre post
         else if d = squote then post @ expandReplacement rest matched pre post
         else c # expandReplacement (d # rest) matched pre post)
      else c # expandReplacement (d # rest) matched pre post)"

text \<open>
  \<^verbatim>\<open>result.replace(regex, value)\<close> for a global pattern that matches the non-empty
  literal \<open>pat\<close>: the matches from left to right, without overlap; \<open>pre\<close> is the input
  already passed.
\<close>

fun replaceGlobal :: "string \<Rightarrow> string \<Rightarrow> string \<Rightarrow> string \<Rightarrow> string" where
  "replaceGlobal pat value pre [] = []"
| "replaceGlobal pat value pre (c # cs) =
     (if pat \<noteq> [] \<and> startsWith (c # cs) pat
      then expandReplacement value pat pre (drop (length pat - 1) cs)
           @ replaceGlobal pat value (pre @ pat) (drop (length pat - 1) cs)
      else c # replaceGlobal pat value (pre @ [c]) cs)"

text \<open>
  \<^verbatim>\<open>applyReplacements\<close>: each replacement in list order, on the result of the ones
  before it. A replacement is skipped when its variable has no value or its original is
  empty. The dictionary of values is a map.
\<close>

definition applyReplacement ::
  "(string \<rightharpoonup> string) \<Rightarrow> string \<Rightarrow> KloreReplacement \<Rightarrow> error + string" where
  "applyReplacement values result replacement =
     (case values (rep_variable replacement) of
        None \<Rightarrow> Inr result
      | Some value \<Rightarrow>
          if rep_original replacement = [] then Inr result
          else (case literalOfPattern (escapeRegExp (rep_original replacement)) of
                  None \<Rightarrow> Inl SyntaxError
                | Some pat \<Rightarrow> Inr (replaceGlobal pat value [] result)))"

fun applyReplacements ::
  "string \<Rightarrow> KloreReplacement list \<Rightarrow> (string \<rightharpoonup> string) \<Rightarrow> error + string" where
  "applyReplacements content [] values = Inr content"
| "applyReplacements content (replacement # rest) values =
     (case applyReplacement values content replacement of
        Inl e \<Rightarrow> Inl e
      | Inr result \<Rightarrow> applyReplacements result rest values)"

section \<open>The installer\<close>

subsection \<open>The file system and the user\<close>

text \<open>
  A path is the list of its components, so \<^verbatim>\<open>path.join(dir, name)\<close> appends one. The file
  system maps paths to files with their content and to directories; the root is a
  directory. A failing call of the \<^verbatim>\<open>fs\<close> module is \<open>IOError\<close> with its code.
\<close>

type_synonym path = "string list"

datatype node = File string | Directory

type_synonym fsys = "(path \<times> node) list"

definition existsSync :: "fsys \<Rightarrow> path \<Rightarrow> bool" where
  "existsSync fs p = (case map_of fs p of None \<Rightarrow> p = [] | Some n \<Rightarrow> True)"

definition isDirectory :: "fsys \<Rightarrow> path \<Rightarrow> bool" where
  "isDirectory fs p = (case map_of fs p of None \<Rightarrow> p = [] | Some n \<Rightarrow> n = Directory)"

definition readFile :: "fsys \<Rightarrow> path \<Rightarrow> error + string" where
  "readFile fs p =
     (case map_of fs p of
        None \<Rightarrow> Inl (IOError (if p = [] then ''EISDIR'' else ''ENOENT''))
      | Some Directory \<Rightarrow> Inl (IOError ''EISDIR'')
      | Some (File content) \<Rightarrow> Inr content)"

fun putNode :: "fsys \<Rightarrow> path \<Rightarrow> node \<Rightarrow> fsys" where
  "putNode [] p n = [(p, n)]"
| "putNode ((q, m) # rest) p n = (if q = p then (p, n) # rest else (q, m) # putNode rest p n)"

definition writeFile :: "fsys \<Rightarrow> path \<Rightarrow> string \<Rightarrow> error + fsys" where
  "writeFile fs p content =
     (if p = [] \<or> isDirectory fs p then Inl (IOError ''EISDIR'')
      else if isDirectory fs (butlast p) then Inr (putNode fs p (File content))
      else Inl (IOError ''ENOENT''))"

text \<open>\<^verbatim>\<open>fs.promises.mkdir(p, { recursive: true })\<close>: the prefixes of the path, shortest first.\<close>

fun mkdirPrefixes :: "fsys \<Rightarrow> path \<Rightarrow> path \<Rightarrow> error + fsys" where
  "mkdirPrefixes fs done [] = Inr fs"
| "mkdirPrefixes fs done (c # cs) =
     (case map_of fs (done @ [c]) of
        Some (File content) \<Rightarrow> Inl (IOError (if cs = [] then ''EEXIST'' else ''ENOTDIR''))
      | Some Directory \<Rightarrow> mkdirPrefixes fs (done @ [c]) cs
      | None \<Rightarrow> mkdirPrefixes (putNode fs (done @ [c]) Directory) (done @ [c]) cs)"

definition mkdirRecursive :: "fsys \<Rightarrow> path \<Rightarrow> error + fsys" where
  "mkdirRecursive fs p = mkdirPrefixes fs [] p"

text \<open>\<^verbatim>\<open>fs.promises.readdir(p, { withFileTypes: true })\<close>: the names directly under a directory.\<close>

definition readdir :: "fsys \<Rightarrow> path \<Rightarrow> error + (string \<times> node) list" where
  "readdir fs p =
     (if isDirectory fs p
      then Inr (map (\<lambda>(q, n). (last q, n)) (filter (\<lambda>(q, n). q \<noteq> [] \<and> butlast q = p) fs))
      else Inl (IOError (if existsSync fs p then ''ENOTDIR'' else ''ENOENT'')))"

text \<open>
  The user is the script of answers still to come, one list for the text prompts and one
  for the confirmations; \<open>None\<close> is a cancelled prompt, and so is a prompt that finds the
  script at its end.
\<close>

record world =
  files :: fsys
  textAnswers :: "string option list"
  confirmAnswers :: "bool option list"

record InstallOptions =
  opt_templatePath :: path
  opt_outputPath :: path
  opt_force :: bool
  opt_values :: "(string \<rightharpoonup> string) option"

record InstallResult =
  res_success :: bool
  res_outputPath :: path
  res_filesCreated :: nat
  res_replacementsApplied :: nat
  res_errors :: "string list"

subsection \<open>Reading the definition\<close>

definition readKloreFile :: "path \<Rightarrow> fsys \<Rightarrow> error + KloreTemplate option" where
  "readKloreFile templatePath fs =
     (let klorePath = templatePath @ [''.klore'']
      in if \<not> existsSync fs klorePath then Inr None
         else case readFile fs klorePath of
                Inl e \<Rightarrow> Inl e
              | Inr content \<Rightarrow> map_sum id Some (parseKlore content))"

subsection \<open>Validation and prompts\<close>

text \<open>\<^verbatim>\<open>/^[^\s@]+@[^\s@]+\.[^\s@]+$/\<close>\<close>

definition emailShape :: "string \<Rightarrow> bool" where
  "emailShape s =
     (case takeUntil (CHR ''@'') s of
        None \<Rightarrow> False
      | Some (localPart, domain) \<Rightarrow>
          localPart \<noteq> [] \<and>
          list_all (\<lambda>c. \<not> isSpace c \<and> c \<noteq> CHR ''@'') (localPart @ domain) \<and>
          CHR ''.'' \<in> set (butlast (tl domain)))"

text \<open>\<^verbatim>\<open>/^#([0-9A-Fa-f]{3}|[0-9A-Fa-f]{6})$/\<close>\<close>

definition colorShape :: "string \<Rightarrow> bool" where
  "colorShape s =
     (case s of
        [] \<Rightarrow> False
      | c # digits \<Rightarrow>
          c = CHR ''#'' \<and> (length digits = 3 \<or> length digits = 6) \<and>
          list_all (\<lambda>d. d \<in> set ''0123456789ABCDEFabcdef'') digits)"

text \<open>\<^verbatim>\<open>/^[\d\s\-\+\(\)]+$/\<close>\<close>

definition phoneShape :: "string \<Rightarrow> bool" where
  "phoneShape s =
     (s \<noteq> [] \<and> list_all (\<lambda>c. c \<in> set ''0123456789-+()'' \<or> isSpace c) s)"

text \<open>
  \<^verbatim>\<open>validateInput\<close>: the problem to show, or \<open>None\<close> for \<^verbatim>\<open>undefined\<close>. Whether
  \<^verbatim>\<open>new URL(value)\<close> accepts a text is the runtime's affair: the parameter \<open>isURL\<close>.
\<close>

definition validateInput :: "(string \<Rightarrow> bool) \<Rightarrow> string \<Rightarrow> KloreVariable \<Rightarrow> string option" where
  "validateInput isURL input variable =
     (if var_required variable \<and> trim input = [] then Some ''This field is required''
      else if trim input = [] then None
      else if var_type variable = ''EMAIL'' then
        (if \<not> emailShape input then Some ''Please enter a valid email address'' else None)
      else if var_type variable = ''COLOR'' then
        (if \<not> colorShape input then Some ''Please enter a valid hex color (e.g., #FF7800)'' else None)
      else if var_type variable = ''PHONE'' then
        (if \<not> phoneShape input then Some ''Please enter a valid phone number'' else None)
      else if var_type variable = ''URL'' then
        (if isURL input then None
         else if input \<noteq> [] \<and> input \<noteq> ''#'' then Some ''Please enter a valid URL'' else None)
      else None)"

text \<open>
  The text prompt of the prompt library, with the validation callback it is given: an
  answer the callback rejects is asked for again; the result is the accepted answer, or
  \<open>None\<close> when the user cancels.
\<close>

fun askText :: "(string \<Rightarrow> string option) \<Rightarrow> string option list \<Rightarrow> string option \<times> string option list" where
  "askText validate [] = (None, [])"
| "askText validate (None # rest) = (None, rest)"
| "askText validate (Some input # rest) =
     (case validate input of
        Some problem \<Rightarrow> askText validate rest
      | None \<Rightarrow> (Some input, rest))"

text \<open>The variables of distinct names, the first of each name.\<close>

fun uniqueByName :: "string list \<Rightarrow> KloreVariable list \<Rightarrow> KloreVariable list" where
  "uniqueByName seenNames [] = []"
| "uniqueByName seenNames (v # vs) =
     (if var_name v \<in> set seenNames then uniqueByName seenNames vs
      else v # uniqueByName (var_name v # seenNames) vs)"

definition promptGroupOrder :: "string list" where
  "promptGroupOrder = [''branding'', ''colors'', ''contact'', ''content'', ''social'',
                       ''institution'', ''legal'']"

text \<open>
  One variable: a prefilled value that is not empty is taken as it is; otherwise the user
  is asked, and an empty answer gives the default. The result is \<open>None\<close> on cancel. The
  dictionaries are plain objects: a name that the prefilled values lack and
  \<^verbatim>\<open>Object.prototype\<close> defines finds the inherited value, which is truthy; it is stored
  under the name where the values inherit the same, so the values read as before, and
  the user is not asked.
\<close>

definition promptVariable ::
  "(string \<Rightarrow> bool) \<Rightarrow> (string \<rightharpoonup> string) option \<Rightarrow> KloreVariable \<Rightarrow>
   (string \<rightharpoonup> string) \<times> string option list \<Rightarrow>
   ((string \<rightharpoonup> string) \<times> string option list) option \<times> string option list" where
  "promptVariable isURL prefilledValues variable st =
     (let (vals, answers) = st;
          prefilled = (case prefilledValues of
                         None \<Rightarrow> Undefined
                       | Some pv \<Rightarrow> objGet pv (var_name variable));
          asked = (case askText (\<lambda>input. validateInput isURL input variable) answers of
                     (None, answers') \<Rightarrow> (None, answers')
                   | (Some result, answers') \<Rightarrow>
                       (Some (objSet vals (var_name variable)
                                (orElse (Some result) (var_defaultValue variable)),
                              answers'), answers'))
      in case prefilled of
           Own value \<Rightarrow>
             if value \<noteq> [] then (Some (objSet vals (var_name variable) value, answers), answers)
             else asked
         | Inherited \<Rightarrow> (Some (vals, answers), answers)
         | Undefined \<Rightarrow> asked)"

fun promptList ::
  "(string \<Rightarrow> bool) \<Rightarrow> (string \<rightharpoonup> string) option \<Rightarrow> KloreVariable list \<Rightarrow>
   (string \<rightharpoonup> string) \<times> string option list \<Rightarrow>
   ((string \<rightharpoonup> string) \<times> string option list) option \<times> string option list" where
  "promptList isURL prefilledValues [] st = (Some st, snd st)"
| "promptList isURL prefilledValues (v # vs) st =
     (case promptVariable isURL prefilledValues v st of
        (None, answers) \<Rightarrow> (None, answers)
      | (Some st', answers) \<Rightarrow> promptList isURL prefilledValues vs st')"

text \<open>
  \<^verbatim>\<open>promptVariables\<close>: the groups of the installer's own order in turn, then the
  variables without a group; \<open>None\<close> for \<^verbatim>\<open>null\<close>, when the user cancels.
\<close>

definition promptOrder :: "KloreTemplate \<Rightarrow> KloreVariable list" where
  "promptOrder template =
     (let uniqueVariables = uniqueByName [] (variables template);
          groupOf = (\<lambda>v. findGroup template (var_name v));
          inGroups = concat (map (\<lambda>groupName.
                        filter (\<lambda>v. map_option grp_name (groupOf v) = Some groupName) uniqueVariables)
                      promptGroupOrder);
          ungrouped = filter (\<lambda>v. groupOf v = None) uniqueVariables
      in inGroups @ ungrouped)"

definition promptVariables ::
  "(string \<Rightarrow> bool) \<Rightarrow> KloreTemplate \<Rightarrow> (string \<rightharpoonup> string) option \<Rightarrow> string option list \<Rightarrow>
   (string \<rightharpoonup> string) option \<times> string option list" where
  "promptVariables isURL template prefilledValues answers =
     (case promptList isURL prefilledValues (promptOrder template) (Map.empty, answers) of
        (None, answers') \<Rightarrow> (None, answers')
      | (Some (vals, answers'), answers'') \<Rightarrow> (Some vals, answers'))"

subsection \<open>Copying the tree\<close>

definition excludeNames :: "string list" where
  "excludeNames = [''.klore'', ''node_modules'', ''vendor'', ''.git'']"

definition textExtensions :: "string list" where
  "textExtensions =
     [''.php'', ''.js'', ''.ts'', ''.jsx'', ''.tsx'', ''.vue'', ''.svelte'',
      ''.html'', ''.htm'', ''.css'', ''.scss'', ''.less'',
      ''.json'', ''.xml'', ''.yaml'', ''.yml'', ''.toml'',
      ''.md'', ''.txt'', ''.env.example'', ''.gitignore'',
      ''.blade.php'', ''.twig'', ''.ejs'', ''.pug'']"

text \<open>\<^verbatim>\<open>path.extname(name)\<close>: from the last dot on, unless that dot is the first character.\<close>

definition extname :: "string \<Rightarrow> string" where
  "extname fname =
     (let tailLen = length (takeWhile (\<lambda>c. c \<noteq> CHR ''.'') (rev fname))
      in if tailLen = length fname \<or> tailLen + 1 = length fname then []
         else drop (length fname - tailLen - 1) fname)"

definition endsWith :: "string \<Rightarrow> string \<Rightarrow> bool" where
  "endsWith s suffix = startsWith (rev s) (rev suffix)"

definition isTextFile :: "string \<Rightarrow> bool" where
  "isTextFile fname =
     (toLowerCase (extname fname) \<in> set textExtensions \<or>
      endsWith fname ''.blade.php'' \<or> fname = ''.env.example'')"

record copyState =
  cs_files :: fsys
  cs_filesCreated :: nat
  cs_replacementsApplied :: nat

text \<open>
  \<^verbatim>\<open>processDir\<close> reads the source directory as it is when it gets there, so the
  recursion is bounded by a number of levels: \<open>None\<close> is a tree deeper than the bound.
  A failing call leaves the files written so far and gives the error.
\<close>

fun processDir ::
    "nat \<Rightarrow> KloreReplacement list \<Rightarrow> (string \<rightharpoonup> string) \<Rightarrow> path \<Rightarrow> path \<Rightarrow> copyState \<Rightarrow>
     (error option \<times> copyState) option"
  and processEntries ::
    "nat \<Rightarrow> KloreReplacement list \<Rightarrow> (string \<rightharpoonup> string) \<Rightarrow> path \<Rightarrow> path \<Rightarrow>
     (string \<times> node) list \<Rightarrow> copyState \<Rightarrow> (error option \<times> copyState) option" where
  "processDir 0 rs vals src dest st = None"
| "processDir (Suc depth) rs vals src dest st =
     (case readdir (cs_files st) src of
        Inl e \<Rightarrow> Some (Some e, st)
      | Inr entries \<Rightarrow>
          (case mkdirRecursive (cs_files st) dest of
             Inl e \<Rightarrow> Some (Some e, st)
           | Inr fs' \<Rightarrow> processEntries depth rs vals src dest entries (st\<lparr>cs_files := fs'\<rparr>)))"
| "processEntries depth rs vals src dest [] st = Some (None, st)"
| "processEntries depth rs vals src dest ((entryName, entryNode) # entries) st =
     (let srcPath = src @ [entryName];
          destPath = dest @ [entryName]
      in if entryName \<in> set excludeNames then processEntries depth rs vals src dest entries st
         else if entryNode = Directory then
           (case processDir depth rs vals srcPath destPath st of
              None \<Rightarrow> None
            | Some (Some e, st') \<Rightarrow> Some (Some e, st')
            | Some (None, st') \<Rightarrow> processEntries depth rs vals src dest entries st')
         else
           (case readFile (cs_files st) srcPath of
              Inl e \<Rightarrow> Some (Some e, st)
            | Inr content \<Rightarrow>
                if isTextFile entryName then
                  (case applyReplacements content rs vals of
                     Inl e \<Rightarrow> Some (Some e, st)
                   | Inr replaced \<Rightarrow>
                       (case writeFile (cs_files st) destPath replaced of
                          Inl e \<Rightarrow> Some (Some e, st)
                        | Inr fs' \<Rightarrow>
                            processEntries depth rs vals src dest entries
                              (st\<lparr>cs_files := fs',
                                  cs_replacementsApplied :=
                                    (if content \<noteq> replaced then cs_replacementsApplied st + 1
                                     else cs_replacementsApplied st),
                                  cs_filesCreated := cs_filesCreated st + 1\<rparr>)))
                else
                  (case writeFile (cs_files st) destPath content of
                     Inl e \<Rightarrow> Some (Some e, st)
                   | Inr fs' \<Rightarrow>
                       processEntries depth rs vals src dest entries
                         (st\<lparr>cs_files := fs', cs_filesCreated := cs_filesCreated st + 1\<rparr>))))"

definition copyWithReplacements ::
  "nat \<Rightarrow> path \<Rightarrow> path \<Rightarrow> KloreReplacement list \<Rightarrow> (string \<rightharpoonup> string) \<Rightarrow> fsys \<Rightarrow>
   (error option \<times> copyState) option" where
  "copyWithReplacements depth srcDir destDir rs vals fs =
     processDir depth rs vals srcDir destDir
       \<lparr>cs_files = fs, cs_filesCreated = 0, cs_replacementsApplied = 0\<rparr>"

subsection \<open>Post-install commands and the install\<close>

text \<open>
  A command runs in the shell, outside the program: the parameter \<open>shell\<close> gives, for a
  command, its working directory and the files, the message of its failure (\<open>None\<close> for
  exit code 0) and the files afterwards. The first failure ends the run.
\<close>

fun runPostInstall ::
  "(string \<Rightarrow> path \<Rightarrow> fsys \<Rightarrow> string option \<times> fsys) \<Rightarrow> string list \<Rightarrow> path \<Rightarrow> fsys \<Rightarrow>
   string option \<times> fsys" where
  "runPostInstall shell [] cwd fs = (None, fs)"
| "runPostInstall shell (cmd # cmds) cwd fs =
     (case shell cmd cwd fs of
        (Some problem, fs') \<Rightarrow> (Some problem, fs')
      | (None, fs') \<Rightarrow> runPostInstall shell cmds cwd fs')"

definition errorMessage :: "error \<Rightarrow> string" where
  "errorMessage e =
     (case e of TypeError \<Rightarrow> ''TypeError'' | SyntaxError \<Rightarrow> ''SyntaxError'' | IOError code \<Rightarrow> code)"

definition failure :: "path \<Rightarrow> string \<Rightarrow> InstallResult" where
  "failure out problem =
     \<lparr> res_success = False, res_outputPath = out, res_filesCreated = 0,
       res_replacementsApplied = 0, res_errors = [problem] \<rparr>"

text \<open>
  \<^verbatim>\<open>installTemplate\<close>. The outcome is \<open>Inl\<close> when the promise is rejected (reading the
  definition fails outside any \<^verbatim>\<open>try\<close>), else the result object; the world afterwards
  comes with it.
\<close>

definition installTemplate ::
  "(string \<Rightarrow> bool) \<Rightarrow> (string \<Rightarrow> path \<Rightarrow> fsys \<Rightarrow> string option \<times> fsys) \<Rightarrow> nat \<Rightarrow>
   InstallOptions \<Rightarrow> world \<Rightarrow> ((error + InstallResult) \<times> world) option" where
  "installTemplate isURL shell depth options w =
     (case readKloreFile (opt_templatePath options) (files w) of
        Inl e \<Rightarrow> Some (Inl e, w)
      | Inr None \<Rightarrow>
          Some (Inr (failure (opt_outputPath options) ''No .klore file found in template directory''), w)
      | Inr (Some template) \<Rightarrow>
          if existsSync (files w) (opt_outputPath options) \<and> \<not> opt_force options
          then Some (Inr (failure (opt_outputPath options)
                            ''Output directory already exists. Use --force to overwrite.''), w)
          else
            let (resolved, w1) =
                  (case opt_values options of
                     Some vals \<Rightarrow> (Some vals, w)
                   | None \<Rightarrow>
                       (let (r, answers) = promptVariables isURL template None (textAnswers w)
                        in (r, w\<lparr>textAnswers := answers\<rparr>)))
            in case resolved of
                 None \<Rightarrow> Some (Inr (failure (opt_outputPath options) ''Installation cancelled by user''), w1)
               | Some vals \<Rightarrow>
                   (case copyWithReplacements depth (opt_templatePath options) (opt_outputPath options)
                           (replacements template) vals (files w1) of
                      None \<Rightarrow> None
                    | Some (Some e, st) \<Rightarrow>
                        Some (Inr (failure (opt_outputPath options) (errorMessage e)),
                              w1\<lparr>files := cs_files st\<rparr>)
                    | Some (None, st) \<Rightarrow>
                        let w2 = w1\<lparr>files := cs_files st\<rparr>;
                            commands = (case onInstall template of None \<Rightarrow> [] | Some cs \<Rightarrow> cs);
                            (errors, w3) =
                              (if length commands > 0 then
                                 (case confirmAnswers w2 of
                                    Some True # rest \<Rightarrow>
                                      (case runPostInstall shell commands (opt_outputPath options) (files w2) of
                                         (Some problem, fs') \<Rightarrow>
                                           ([''Post-install error: '' @ problem],
                                            w2\<lparr>files := fs', confirmAnswers := rest\<rparr>)
                                       | (None, fs') \<Rightarrow> ([], w2\<lparr>files := fs', confirmAnswers := rest\<rparr>))
                                  | answer # rest \<Rightarrow> ([], w2\<lparr>confirmAnswers := rest\<rparr>)
                                  | [] \<Rightarrow> ([], w2))
                               else ([], w2))
                        in Some (Inr \<lparr> res_success = True, res_outputPath = opt_outputPath options,
                                       res_filesCreated = cs_filesCreated st,
                                       res_replacementsApplied = cs_replacementsApplied st,
                                       res_errors = errors \<rparr>, w3)))"



section \<open>Facts about the parser\<close>

lemma onInstallLoop_total: "\<exists>r. onInstallLoop lines cur template = Inr r"
proof (induction lines cur template rule: onInstallLoop.induct)
  case (1 lines cur template)
  show ?case
  proof (cases "cur < length lines")
    case False
    then show ?thesis by (simp add: onInstallLoop.simps)
  next
    case True
    then have line: "at lines cur = Some (lines ! cur)"
      by (simp add: at_def)
    show ?thesis
    proof (cases "toUpperCase (lines ! cur) = ''END''")
      case True
      with \<open>cur < length lines\<close> line show ?thesis
        by (simp add: onInstallLoop.simps [of lines cur])
    next
      case False
      from "1.IH" [OF \<open>cur < length lines\<close> line False]
      obtain r where "onInstallLoop lines (cur + 1) (blockLine (lines ! cur) template) = Inr r"
        by blast
      with \<open>cur < length lines\<close> line False show ?thesis
        by (simp add: onInstallLoop.simps [of lines cur])
    qed
  qed
qed

lemma parseLine_total: "\<exists>r. parseLine lines cur line template = Inr r"
proof (cases "tokenize line")
  case Nil
  then show ?thesis by (simp add: parseLine_def)
next
  case (Cons t0 ts)
  then have t0: "at (tokenize line) 0 = Some t0" "length (tokenize line) \<noteq> 0"
    by (simp_all add: at_def)
  show ?thesis
  proof (cases "toUpperCase t0 = ''ON_INSTALL'' \<or> toUpperCase t0 = ''ON''")
    case True
    with t0 onInstallLoop_total [of lines "cur + 1" template] show ?thesis
      by (auto simp add: parseLine_def parseOnInstall_def Let_def)
  next
    case False
    with t0 show ?thesis
      by (simp add: parseLine_def Let_def)
  qed
qed

lemma parseLoop_total: "\<exists>t. parseLoop lines cur template = Inr t"
proof (induction lines cur template rule: parseLoop.induct)
  case (1 lines cur template)
  show ?case
  proof (cases "cur < length lines")
    case False
    then show ?thesis by (simp add: parseLoop.simps)
  next
    case True
    from parseLine_total obtain cur' template' where
      r: "parseLine lines cur (lines ! cur) template = Inr (cur', template')"
      by (metis surj_pair)
    from "1.IH" [OF True r refl] True r show ?thesis
      by (simp add: parseLoop.simps [of lines cur])
  qed
qed

text \<open>A line that \<^verbatim>\<open>parseLine\<close> dispatches to \<^verbatim>\<open>parseReplacement\<close>.\<close>

definition isReplaceLine :: "string \<Rightarrow> bool" where
  "isReplaceLine line =
     (case tokenize line of [] \<Rightarrow> False | t0 # ts \<Rightarrow> toUpperCase t0 = ''REPLACE'')"

lemma parseLine_replace:
  assumes "isReplaceLine line"
  shows "parseLine lines cur line template =
         Inr (cur, template\<lparr>replacements := replacements template @ [parseReplacement line]\<rparr>)"
proof -
  from assms obtain t0 ts where tk: "tokenize line = t0 # ts" and up: "toUpperCase t0 = ''REPLACE''"
    by (auto simp: isReplaceLine_def split: list.splits)
  then have "at (tokenize line) 0 = Some t0" "length (tokenize line) \<noteq> 0"
    by (simp_all add: at_def)
  with up show ?thesis
    by (simp add: parseLine_def Let_def)
qed

text \<open>Lines used as concrete inputs below.\<close>

definition varLineUnknownType :: string where
  "varLineUnknownType = ''VAR count INTEGER \"5\"''"

definition replaceLineNoWithKeyword :: string where
  "replaceLineNoWithKeyword = ''REPLACE \"Pay WITH card\" IN \"a.html\"''"

definition replaceLineEscapedQuote :: string where
  "replaceLineEscapedQuote = ''REPLACE \"abc'' @ [bslash] @ ''\" WITH {{ x }}''"

text \<open>
  A quote of a text is escaped when an odd number of backslashes stands directly before
  it; a text is never closed when each of its quotes is escaped.
\<close>

definition backslashRun :: "string \<Rightarrow> nat" where
  "backslashRun pre = length (takeWhile (\<lambda>c. c = bslash) (rev pre))"

definition closesAt :: "string \<Rightarrow> nat \<Rightarrow> bool" where
  "closesAt s j = (s ! j = dquote \<and> even (backslashRun (take j s)))"

definition neverClosed :: "string \<Rightarrow> bool" where
  "neverClosed s = list_all (\<lambda>j. \<not> closesAt s j) [0..<length s]"

lemma backslashRun_snoc:
  "backslashRun (pre @ [c]) = (if c = bslash then Suc (backslashRun pre) else 0)"
  by (simp add: backslashRun_def)

lemma scanOriginalEnd_none:
  "(scanOriginalEnd cs i (odd (backslashRun pre)) = None) =
   (\<forall>j<length cs. \<not> (cs ! j = dquote \<and> even (backslashRun (pre @ take j cs))))"
proof (induction cs arbitrary: pre i)
  case Nil
  then show ?case by simp
next
  case (Cons c cs)
  have split: "\<And>P. (\<forall>j<length (c # cs). P j) = (P 0 \<and> (\<forall>j<length cs. P (Suc j)))"
    by (auto simp: less_Suc_eq_0_disj)
  have ih: "\<And>k. (scanOriginalEnd cs k (odd (backslashRun (pre @ [c]))) = None) =
        (\<forall>j<length cs. \<not> (cs ! j = dquote \<and> even (backslashRun (pre @ c # take j cs))))"
    using Cons.IH [of _ "pre @ [c]"] by simp
  have p0: "(\<not> (((c # cs) ! 0) = dquote \<and> even (backslashRun (pre @ take 0 (c # cs))))) =
            (\<not> (c = dquote \<and> even (backslashRun pre)))"
    by simp
  have rhs: "(\<forall>j<length (c # cs). \<not> ((c # cs) ! j = dquote \<and> even (backslashRun (pre @ take j (c # cs))))) =
        (\<not> (c = dquote \<and> even (backslashRun pre)) \<and>
         (\<forall>j<length cs. \<not> (cs ! j = dquote \<and> even (backslashRun (pre @ c # take j cs)))))"
    by (subst split) simp
  show ?case
  proof (cases "c = bslash")
    case True
    show ?thesis
    proof (cases "odd (backslashRun pre)")
      case odd: True
      then have "odd (backslashRun (pre @ [c])) = False" using True by (simp add: backslashRun_snoc)
      with ih [of "i + 1"] have
        "(scanOriginalEnd cs (i + 1) False = None) =
         (\<forall>j<length cs. \<not> (cs ! j = dquote \<and> even (backslashRun (pre @ c # take j cs))))"
        by simp
      with True odd show ?thesis unfolding rhs by simp
    next
      case even: False
      then have "odd (backslashRun (pre @ [c])) = True" using True by (simp add: backslashRun_snoc)
      with ih [of "i + 1"] have
        "(scanOriginalEnd cs (i + 1) True = None) =
         (\<forall>j<length cs. \<not> (cs ! j = dquote \<and> even (backslashRun (pre @ c # take j cs))))"
        by simp
      with True even show ?thesis unfolding rhs by simp
    qed
  next
    case False
    then have "odd (backslashRun (pre @ [c])) = False" by (simp add: backslashRun_snoc)
    with ih [of "i + 1"] have
      "(scanOriginalEnd cs (i + 1) False = None) =
       (\<forall>j<length cs. \<not> (cs ! j = dquote \<and> even (backslashRun (pre @ c # take j cs))))"
      by simp
    with False show ?thesis unfolding rhs by auto
  qed
qed

lemma scanOriginalEnd_neverClosed:
  "(scanOriginalEnd s i False = None) = neverClosed s"
  using scanOriginalEnd_none [of s i "[]"]
  by (auto simp: neverClosed_def closesAt_def backslashRun_def list_all_iff)


text \<open>
  The deviations: the letters REPLACE or WITH occur nowhere in the line, or the text after
  the first REPLACE does not open with a quote, or opens with one that is never closed.
\<close>

definition deviates :: "string \<Rightarrow> bool" where
  "deviates line =
     (\<not> includesStr line ''REPLACE'' \<or> \<not> includesStr line ''WITH'' \<or>
      \<not> startsWith (textAfterReplace line) [dquote] \<or>
      neverClosed (drop 1 (textAfterReplace line)))"

lemma parseReplacement_deviates: "deviates line \<Longrightarrow> parseReplacement line = noopReplacement"
  unfolding deviates_def parseReplacement_def Let_def
  using scanOriginalEnd_neverClosed [of "drop 1 (textAfterReplace line)" 1]
  by (auto simp del: includesStr.simps)

lemma startsWith_length: "startsWith s p \<Longrightarrow> length p \<le> length s"
  by (induction s p rule: startsWith.induct) auto

lemma trim_length: "length (trim s) \<le> length s"
proof -
  have "length (trim s) \<le> length (dropWhile isSpace s)"
    unfolding trim_def using length_dropWhile_le [of isSpace "rev (dropWhile isSpace s)"] by simp
  also have "\<dots> \<le> length s" by (rule length_dropWhile_le)
  finally show ?thesis .
qed

lemma startsWith_Cons2: "startsWith s (a # b # p) = (\<exists>r. s = a # b # r \<and> startsWith r p)"
  by (cases s; cases "tl s") auto

lemma replace_line_in_block:
  assumes "startsWith (toUpperCase (trim line)) ''REPLACE''"
  shows "toUpperCase line \<noteq> ''END'' \<and>
         blockLine line template =
           template\<lparr>replacements := replacements template @ [parseReplacement (trim line)]\<rparr>"
proof -
  from startsWith_length [OF assms] have "7 \<le> length (trim line)" by (simp add: toUpperCase_def)
  with trim_length [of line] have "7 \<le> length line" by simp
  then have "length (toUpperCase line) \<noteq> length ''END''" by (simp add: toUpperCase_def)
  then have ne: "toUpperCase line \<noteq> ''END''" by metis
  from assms have "\<not> startsWith (toUpperCase (trim line)) ''RUN''"
    unfolding startsWith_Cons2 by auto
  with assms ne show ?thesis by (simp add: blockLine_def Let_def)
qed

section \<open>Facts about the generator\<close>

text \<open>Splitting the joined lines gives the lines back when none of them holds a line feed.\<close>

lemma splitOn_no_sep: "c \<notin> set x \<Longrightarrow> splitOn c x = [x]"
  by (induction x) auto



text \<open>
  The dictionary that \<^verbatim>\<open>pushAll\<close> builds when no key is a name of \<^verbatim>\<open>Object.prototype\<close>,
  and the exception when one is.
\<close>

definition filed :: "('a \<Rightarrow> string) \<Rightarrow> 'a list \<Rightarrow> (string \<rightharpoonup> 'a list) \<Rightarrow> (string \<rightharpoonup> 'a list)" where
  "filed key xs m0 k =
     (if filter (\<lambda>x. key x = k) xs = [] then m0 k
      else Some ((case m0 k of None \<Rightarrow> [] | Some l \<Rightarrow> l) @ filter (\<lambda>x. key x = k) xs))"

lemma filed_Nil: "filed key [] m0 = m0"
  by (simp add: filed_def fun_eq_iff)

lemma filed_Cons:
  "filed key (x # xs) m0 =
     filed key xs (m0(key x \<mapsto> (case m0 (key x) of None \<Rightarrow> [] | Some l \<Rightarrow> l) @ [x]))"
  by (auto simp: filed_def fun_eq_iff)

lemma pushAll_plain:
  "\<forall>x\<in>set xs. key x \<notin> set inheritedNames \<Longrightarrow> pushAll key xs m0 = Inr (filed key xs m0)"
proof (induction xs arbitrary: m0)
  case Nil
  then show ?case by (simp add: filed_Nil)
next
  case (Cons x xs)
  from Cons.prems have x: "key x \<notin> set inheritedNames" and rest: "\<forall>y\<in>set xs. key y \<notin> set inheritedNames"
    by simp_all
  let ?m' = "m0(key x \<mapsto> (case m0 (key x) of None \<Rightarrow> [] | Some l \<Rightarrow> l) @ [x])"
  have "pushTo m0 (key x) x = Inr ?m'"
    using x by (simp add: pushTo_def split: option.splits)
  then have "pushAll key (x # xs) m0 = pushAll key xs ?m'" by simp
  also have "\<dots> = Inr (filed key xs ?m')" using rest by (rule Cons.IH)
  also have "filed key xs ?m' = filed key (x # xs) m0" by (rule filed_Cons [symmetric])
  finally show ?case .
qed


text \<open>
  The entries of the dictionary \<^verbatim>\<open>groupedVars\<close>: the variables of a group name, in the
  order of the template; the ungrouped variables that \<^verbatim>\<open>generateKlore\<close> renders last.
\<close>

definition varsOfGroup :: "KloreTemplate \<Rightarrow> string \<Rightarrow> KloreVariable list" where
  "varsOfGroup template k = filter (\<lambda>v. varGroupName template v = k) (variables template)"

definition varDict :: "KloreTemplate \<Rightarrow> (string \<rightharpoonup> KloreVariable list)" where
  "varDict template k =
     (if varsOfGroup template k = [] then None else Some (varsOfGroup template k))"

lemma varDict_filed: "varDict template = filed (varGroupName template) (variables template) Map.empty"
  by (simp add: varDict_def filed_def varsOfGroup_def fun_eq_iff)

definition repsOfGroup :: "KloreTemplate \<Rightarrow> string \<Rightarrow> KloreReplacement list" where
  "repsOfGroup template k = filter (\<lambda>r. repGroupName template r = k) (replacements template)"

definition repDict :: "KloreTemplate \<Rightarrow> (string \<rightharpoonup> KloreReplacement list)" where
  "repDict template k =
     (if repsOfGroup template k = [] then None else Some (repsOfGroup template k))"

lemma repDict_filed:
  "repDict template = filed (repGroupName template) (replacements template) Map.empty"
  by (simp add: repDict_def filed_def repsOfGroup_def fun_eq_iff)

text \<open>
  The templates for which \<^verbatim>\<open>generateKlore\<close> returns: no variable and no replacement is
  filed under a name of \<^verbatim>\<open>Object.prototype\<close>. The lines and the text it then returns.
\<close>

definition plainGroups :: "KloreTemplate \<Rightarrow> bool" where
  "plainGroups template =
     (list_all (\<lambda>v. varGroupName template v \<notin> set inheritedNames) (variables template) \<and>
      list_all (\<lambda>r. repGroupName template r \<notin> set inheritedNames) (replacements template))"

definition generateLines :: "KloreTemplate \<Rightarrow> string list" where
  "generateLines template =
     headerLines template @ hintLines template @ variableLines (varDict template)
     @ installLines (repDict template) template"

definition generatedText :: "KloreTemplate \<Rightarrow> string" where
  "generatedText template = joinWith [newline] (generateLines template)"

lemma generateKlore_plain:
  assumes "plainGroups template"
  shows "generateKlore template = Inr (generatedText template)"
proof -
  from assms have "groupedVars template = Inr (varDict template)"
    by (simp add: plainGroups_def groupedVars_def varDict_filed pushAll_plain list_all_iff)
  moreover from assms have "replacementsByGroup template = Inr (repDict template)"
    by (simp add: plainGroups_def replacementsByGroup_def repDict_filed pushAll_plain list_all_iff)
  ultimately show ?thesis
    by (simp add: generateKlore_def generatedText_def generateLines_def)
qed






definition otherVars :: "KloreTemplate \<Rightarrow> KloreVariable list" where
  "otherVars template =
     (if varsOfGroup template ''other'' \<noteq> [] then varsOfGroup template ''other''
      else varsOfGroup template ''General Settings'')"



lemma filter_map_none: "(\<And>x. \<not> P (f x)) \<Longrightarrow> filter P (map f xs) = []"
  by (induction xs) auto















text \<open>
  A template in which the variable \<^verbatim>\<open>title\<close> is filed under a group named
  \<^verbatim>\<open>constructor\<close>, and one with two variables named \<^verbatim>\<open>hero\<close> under a group that is not
  in the table.
\<close>

definition ctorTemplate :: KloreTemplate where
  "ctorTemplate =
     emptyTemplate\<lparr> name := ''Shop'',
       variables := [\<lparr>var_name = ''title'', var_type = ''STRING'',
                      var_defaultValue = ''Hi'', var_required = False\<rparr>],
       groups := [\<lparr>grp_name = ''constructor'', grp_variables = [''title'']\<rparr>] \<rparr>"

section \<open>Facts about parsing a generated definition\<close>

subsection \<open>The lines of a generated text\<close>

lemma splitOn_nonempty: "splitOn c s \<noteq> []"
  by (induction s) (auto split: list.splits)

lemma splitOn_append: "splitOn c (x @ c # rest) = splitOn c x @ splitOn c rest"
proof (induction x)
  case Nil
  then show ?case by simp
next
  case (Cons a x)
  obtain l ls where l: "splitOn c x = l # ls"
    using splitOn_nonempty [of c x] by (cases "splitOn c x") auto
  with Cons show ?case by simp
qed

lemma splitOn_join:
  "ls \<noteq> [] \<Longrightarrow> splitOn c (joinWith [c] ls) = concat (map (splitOn c) ls)"
proof (induction ls rule: induct_list012)
  case 1
  then show ?case by simp
next
  case (2 x)
  then show ?case by simp
next
  case (3 x y zs)
  then show ?case by (simp add: splitOn_append)
qed

lemma generateLines_nonempty: "generateLines template \<noteq> []"
  by (simp add: generateLines_def headerLines_def)

lemma prepareLines_generate:
  "prepareLines (generatedText template) =
     filter keepLine (map trim (concat (map (splitOn newline) (generateLines template))))"
  by (simp add: prepareLines_def generatedText_def splitOn_join generateLines_nonempty)

lemma trim_Cons:
  "\<not> isSpace c \<Longrightarrow> trim (c # x) = c # rev (dropWhile isSpace (rev x))"
  by (simp add: trim_def dropWhile_append3)

lemma trim_space: "isSpace c \<Longrightarrow> trim (c # x) = trim x"
  by (simp add: trim_def)

lemma trimEnd_snoc: "\<not> isSpace d \<Longrightarrow> rev (dropWhile isSpace (rev (x @ [d]))) = x @ [d]"
  by simp


text \<open>What a line outside a block does to the template.\<close>

definition harmless :: "string \<Rightarrow> bool" where
  "harmless l =
     (case tokenize l of
        [] \<Rightarrow> True
      | t0 # ts \<Rightarrow> toUpperCase t0 \<noteq> ''ON_INSTALL'' \<and> toUpperCase t0 \<noteq> ''ON'')"

definition lineEffect :: "string \<Rightarrow> KloreTemplate \<Rightarrow> KloreTemplate" where
  "lineEffect l template =
     (case parseLine [] 0 l template of Inr (cur, template') \<Rightarrow> template' | Inl e \<Rightarrow> template)"

lemma parseLine_harmless:
  assumes "harmless l"
  shows "parseLine lines cur l template = Inr (cur, lineEffect l template)"
proof (cases "tokenize l")
  case Nil
  then show ?thesis by (simp add: parseLine_def lineEffect_def)
next
  case (Cons t0 ts)
  then have t0: "at (tokenize l) 0 = Some t0" "length (tokenize l) \<noteq> 0"
    by (simp_all add: at_def)
  from assms Cons have no: "toUpperCase t0 \<noteq> ''ON_INSTALL''" "toUpperCase t0 \<noteq> ''ON''"
    by (simp_all add: harmless_def)
  with t0 show ?thesis
    by (simp add: parseLine_def lineEffect_def Let_def)
qed

lemma parseLoop_prefix:
  assumes "\<forall>l\<in>set A. harmless l" and "i \<le> length A"
  shows "parseLoop (A @ rest) i template =
         parseLoop (A @ rest) (length A) (foldl (\<lambda>t l. lineEffect l t) template (drop i A))"
  using assms(2)
proof (induction "length A - i" arbitrary: i template)
  case 0
  then show ?case by simp
next
  case (Suc n)
  then have lt: "i < length A" by simp
  with assms(1) have h: "harmless (A ! i)" by simp
  from lt have nth: "(A @ rest) ! i = A ! i" by (simp add: nth_append)
  from lt have step:
    "parseLoop (A @ rest) i template = parseLoop (A @ rest) (i + 1) (lineEffect (A ! i) template)"
    by (subst parseLoop.simps) (simp add: nth parseLine_harmless [OF h])
  from Suc(2) lt have "n = length A - (i + 1)" by simp
  from Suc(1) [OF this, of "lineEffect (A ! i) template"] lt
  have "parseLoop (A @ rest) (i + 1) (lineEffect (A ! i) template) =
        parseLoop (A @ rest) (length A)
          (foldl (\<lambda>t l. lineEffect l t) (lineEffect (A ! i) template) (drop (i + 1) A))"
    by simp
  moreover from lt have "drop i A = A ! i # drop (i + 1) A"
    by (simp add: Cons_nth_drop_Suc)
  ultimately show ?case using step by simp
qed

lemma onInstallLoop_block:
  assumes "\<forall>l\<in>set B. toUpperCase l \<noteq> ''END''" and "j \<le> length B"
  shows "onInstallLoop (pre @ B @ ''END'' # post) (length pre + j) template =
         Inr (length pre + length B, foldl (\<lambda>t l. blockLine l t) template (drop j B))"
  using assms(2)
proof (induction "length B - j" arbitrary: j template)
  case 0
  then have j: "j = length B" by simp
  have "at (pre @ B @ ''END'' # post) (length pre + length B) = Some ''END''"
    by (simp add: at_def nth_append)
  moreover have "toUpperCase ''END'' = ''END''" by code_simp
  ultimately show ?case using j
    by (subst onInstallLoop.simps) simp
next
  case (Suc n)
  then have lt: "j < length B" by simp
  with assms(1) have ne: "toUpperCase (B ! j) \<noteq> ''END''" by simp
  from lt have a: "at (pre @ B @ ''END'' # post) (length pre + j) = Some (B ! j)"
    by (simp add: at_def nth_append)
  from lt a ne have step:
    "onInstallLoop (pre @ B @ ''END'' # post) (length pre + j) template =
     onInstallLoop (pre @ B @ ''END'' # post) (length pre + (j + 1)) (blockLine (B ! j) template)"
    by (subst onInstallLoop.simps) (simp add: add.assoc)
  from Suc(2) lt have "n = length B - (j + 1)" by simp
  from Suc(1) [OF this, of "blockLine (B ! j) template"] lt
  have "onInstallLoop (pre @ B @ ''END'' # post) (length pre + (j + 1)) (blockLine (B ! j) template) =
        Inr (length pre + length B,
             foldl (\<lambda>t l. blockLine l t) (blockLine (B ! j) template) (drop (j + 1) B))"
    by simp
  moreover from lt have "drop j B = B ! j # drop (j + 1) B"
    by (simp add: Cons_nth_drop_Suc)
  ultimately show ?case using step by simp
qed

text \<open>A definition text whose only block is at its end.\<close>

lemma parseLoop_top_then_block:
  assumes top: "\<forall>l\<in>set A. harmless l"
    and blk: "\<forall>l\<in>set B. toUpperCase l \<noteq> ''END''"
  shows "parseLoop (A @ ''ON INSTALL'' # B @ [''END'']) 0 template =
         Inr (foldl (\<lambda>t l. blockLine l t) (foldl (\<lambda>t l. lineEffect l t) template A) B)"
proof -
  let ?L = "A @ ''ON INSTALL'' # B @ [''END'']"
  let ?tA = "foldl (\<lambda>t l. lineEffect l t) template A"
  let ?tB = "foldl (\<lambda>t l. blockLine l t) ?tA B"
  have 1: "parseLoop ?L 0 template = parseLoop ?L (length A) ?tA"
    using parseLoop_prefix [OF top, of 0 "''ON INSTALL'' # B @ [''END'']" template] by simp
  have tok: "tokenize ''ON INSTALL'' = [''ON'', ''INSTALL'']" by code_simp
  have up: "toUpperCase ''ON'' = ''ON''" by code_simp
  have blk2: "onInstallLoop ((A @ [''ON INSTALL'']) @ B @ ''END'' # []) (length (A @ [''ON INSTALL'']) + 0) ?tA =
        Inr (length (A @ [''ON INSTALL'']) + length B, foldl (\<lambda>t l. blockLine l t) ?tA (drop 0 B))"
    by (rule onInstallLoop_block [OF blk]) simp
  then have blk3: "onInstallLoop ?L (length A + 1) ?tA = Inr (length A + 1 + length B, ?tB)"
    by simp
  have pl: "parseLine ?L (length A) ''ON INSTALL'' ?tA = Inr (length A + 1 + length B, ?tB)"
    using blk3 by (simp add: parseLine_def tok up at_def parseOnInstall_def del: tokenize.simps)
  have 2: "parseLoop ?L (length A) ?tA = parseLoop ?L (length A + 1 + length B + 1) ?tB"
    by (subst parseLoop.simps) (simp add: pl nth_append)
  have 3: "parseLoop ?L (length A + 1 + length B + 1) ?tB = Inr ?tB"
    by (subst parseLoop.simps) simp
  from 1 2 3 show ?thesis by simp
qed


subsection \<open>Trimming and filtering the generated lines\<close>

definition wrapped :: "string \<Rightarrow> bool" where
  "wrapped l = (l \<noteq> [] \<and> \<not> isSpace (hd l) \<and> \<not> isSpace (last l))"

lemma trim_wrapped: "wrapped l \<Longrightarrow> trim l = l"
proof -
  assume w: "wrapped l"
  then obtain c x where l: "l = c # x" by (cases l) (auto simp: wrapped_def)
  with w have c: "\<not> isSpace c" by (simp add: wrapped_def)
  show ?thesis
  proof (cases x rule: rev_cases)
    case Nil
    with l c show ?thesis by (simp add: trim_def)
  next
    case (snoc y d)
    with w l have "\<not> isSpace d" by (simp add: wrapped_def)
    with l c snoc show ?thesis by (simp add: trim_Cons)
  qed
qed

lemma keepLine_letter: "c \<noteq> CHR ''#'' \<Longrightarrow> keepLine (c # x)"
  by (simp add: keepLine_def)

lemma trim_comment: "\<not> keepLine (trim (CHR ''#'' # x))"
  by (simp add: trim_Cons isSpace_def keepLine_def)

lemma trim_indent4: "trim (CHR '' '' # CHR '' '' # CHR '' '' # CHR '' '' # x) = trim x"
  by (simp add: trim_space isSpace_def)

lemma trim_Nil: "trim [] = []"
  by (simp add: trim_def)

lemma filter_map_all: "(\<And>x. P (f x)) \<Longrightarrow> filter P (map f xs) = map f xs"
  by (induction xs) auto

lemma wrapped_askLine: "wrapped (askLine k v)"
  by (simp add: wrapped_def askLine_def Let_def isSpace_def)

lemma wrapped_askLineOther: "wrapped (askLineOther v)"
  by (simp add: wrapped_def askLineOther_def Let_def isSpace_def)

lemma keep_askLine: "keepLine (askLine k v)"
  by (simp add: askLine_def Let_def keepLine_def)

lemma keep_askLineOther: "keepLine (askLineOther v)"
  by (simp add: askLineOther_def Let_def keepLine_def)

text \<open>The ASK lines in the order of the generated text.\<close>

definition askLines :: "KloreTemplate \<Rightarrow> string list" where
  "askLines template =
     concat (map (\<lambda>k. map (askLine k) (varsOfGroup template k)) groupOrder)
     @ map askLineOther (otherVars template)"

lemma prepared_varSection:
  "filter keepLine (map trim (varSection (varDict template) k)) =
     map (askLine k) (varsOfGroup template k)"
proof (cases "varsOfGroup template k = []")
  case True
  then show ?thesis by (simp add: varSection_def varDict_def)
next
  case False
  have "filter keepLine (map trim (map (askLine k) (varsOfGroup template k)))
          = map (askLine k) (varsOfGroup template k)"
    by (simp add: trim_wrapped wrapped_askLine keep_askLine filter_map_all o_def)
  with False show ?thesis
    by (simp add: varSection_def varDict_def trim_comment trim_Nil keepLine_def [of "[]"])
qed

lemma prepared_otherSection:
  "filter keepLine (map trim (otherSection (varDict template))) =
     map askLineOther (otherVars template)"
proof -
  have *: "\<And>vs. filter keepLine (map trim (map askLineOther vs)) = map askLineOther vs"
    by (simp add: trim_wrapped wrapped_askLineOther keep_askLineOther filter_map_all o_def)
  show ?thesis
    using *
    by (simp add: otherSection_def varDict_def otherVars_def trim_comment trim_Nil
          keepLine_def [of "[]"])
qed

lemma prepared_variableLines:
  "filter keepLine (map trim (variableLines (varDict template))) = askLines template"
  by (simp add: variableLines_def askLines_def trim_comment trim_Nil keepLine_def [of "[]"]
        map_concat filter_concat o_def prepared_varSection prepared_otherSection)

lemma prepared_hintLines: "filter keepLine (map trim (hintLines template)) = []"
proof -
  have "\<And>hints. filter keepLine (map (\<lambda>hint. trim (CHR ''#'' # CHR '' '' # hint)) hints) = []"
    by (rule filter_map_none) (rule trim_comment)
  then show ?thesis
    by (simp add: hintLines_def trim_comment trim_Nil keepLine_def [of "[]"] o_def
             split: option.splits)
qed

definition nameLine :: "KloreTemplate \<Rightarrow> string" where
  "nameLine template = ''NAME \"'' @ dashSpaces (toLowerCase (name template)) @ ''-template\"''"

definition topHeader :: "KloreTemplate \<Rightarrow> string list" where
  "topHeader template =
     [nameLine template]
     @ (if version template \<noteq> [] then [''VERSION \"'' @ version template @ ''\"''] else [])
     @ (case framework template of
          None \<Rightarrow> []
        | Some f \<Rightarrow> if f \<noteq> [] then [''FRAMEWORK \"'' @ f @ ''\"''] else [])"

lemma wrapped_quoted: "\<not> isSpace c \<Longrightarrow> wrapped ((c # p) @ x @ [dquote])"
  by (simp add: wrapped_def isSpace_def)

lemma prepared_headerLines:
  "filter keepLine (map trim (headerLines template)) = topHeader template"
proof -
  have n: "trim (''NAME \"'' @ dashSpaces (toLowerCase (name template)) @ ''-template\"'')
           = ''NAME \"'' @ dashSpaces (toLowerCase (name template)) @ ''-template\"''"
    by (rule trim_wrapped) (simp add: wrapped_def isSpace_def)
  have v: "trim (''VERSION \"'' @ version template @ ''\"'') = ''VERSION \"'' @ version template @ ''\"''"
    by (rule trim_wrapped) (simp add: wrapped_def isSpace_def)
  have f: "\<And>f. trim (''FRAMEWORK \"'' @ f @ ''\"'') = ''FRAMEWORK \"'' @ f @ ''\"''"
    by (rule trim_wrapped) (simp add: wrapped_def isSpace_def)
  have c1: "\<not> keepLine (trim (''# '' @ name template @ '' Template''))"
    using trim_comment [of "'' '' @ name template @ '' Template''"] by simp
  have c2: "\<not> keepLine (trim ''# Generated by Klore AI - Comprehensive Templatization'')"
    using trim_comment [of "'' Generated by Klore AI - Comprehensive Templatization''"] by simp
  have k: "\<And>c x. c \<noteq> CHR ''#'' \<Longrightarrow> keepLine (c # x)" by (simp add: keepLine_def)
  show ?thesis
    unfolding headerLines_def topHeader_def nameLine_def
    by (simp add: n [simplified] v [simplified] f [simplified] c1 [simplified] c2 [simplified]
          k trim_Nil keepLine_def [of "[]"] split: option.splits)
qed


text \<open>The replacements in the order of the generated text.\<close>

definition renderedReplacements :: "KloreTemplate \<Rightarrow> KloreReplacement list" where
  "renderedReplacements template = concat (map (repsOfGroup template) (groupOrder @ [''other'']))"

definition copyLine :: string where
  "copyLine = ''COPY \".env.example\" TO \".env\"''"

definition trimEnd :: "string \<Rightarrow> string" where
  "trimEnd s = rev (dropWhile isSpace (rev s))"

lemma trimEnd_keep: "\<not> isSpace c \<Longrightarrow> trimEnd (p @ c # x) = p @ c # trimEnd x"
  by (simp add: trimEnd_def dropWhile_append3)

lemma trim_letter: "\<not> isSpace c \<Longrightarrow> trim (c # x) = c # trimEnd x"
  by (simp add: trim_Cons trimEnd_def)

lemma trim_replaceLine_head:
  "\<exists>y. trim (replaceLine r) = ''REPLACE \"'' @ y"
proof -
  define X where "X = escapeOriginal (rep_original r) @ ''\" WITH \"{{ '' @ rep_variable r
              @ '' }}\" IN '' @ joinWith '' '' (map (\<lambda>p. [dquote] @ p @ [dquote]) (rep_filePatterns r))"
  have "trim (replaceLine r) = trim (CHR ''R'' # ''EPLACE '' @ dquote # X)"
    by (simp add: replaceLine_def Let_def trim_space isSpace_def X_def)
  also have "\<dots> = CHR ''R'' # trimEnd (''EPLACE '' @ dquote # X)"
    by (rule trim_letter) (simp add: isSpace_def)
  also have "trimEnd (''EPLACE '' @ dquote # X) = ''EPLACE '' @ dquote # trimEnd X"
    by (rule trimEnd_keep) (simp add: isSpace_def)
  finally show ?thesis by simp
qed

lemma keep_trim_replaceLine: "keepLine (trim (replaceLine r))"
  using trim_replaceLine_head [of r] by (auto simp: keepLine_def)

lemma trim_runLine_head:
  "l \<in> set (runLines template) \<Longrightarrow> \<exists>y. trim l = ''RUN \"'' @ y"
proof -
  have *: "\<And>x. \<exists>y. trim (''    RUN \"'' @ x) = ''RUN \"'' @ y"
  proof -
    fix x
    have "trim (''    RUN \"'' @ x) = trim (CHR ''R'' # ''UN '' @ dquote # x)"
      by (simp add: trim_space isSpace_def)
    also have "\<dots> = CHR ''R'' # trimEnd (''UN '' @ dquote # x)"
      by (rule trim_letter) (simp add: isSpace_def)
    also have "trimEnd (''UN '' @ dquote # x) = ''UN '' @ dquote # trimEnd x"
      by (rule trimEnd_keep) (simp add: isSpace_def)
    finally show "\<exists>y. trim (''    RUN \"'' @ x) = ''RUN \"'' @ y" by simp
  qed
  assume "l \<in> set (runLines template)"
  then obtain x where "l = ''    RUN \"'' @ x"
    by (auto simp: runLines_def Let_def defaultRunLines_def split: if_splits)
  with * show ?thesis by simp
qed

lemma keep_trim_runLines:
  "filter keepLine (map trim (runLines template)) = map trim (runLines template)"
proof -
  have "\<forall>l\<in>set (runLines template). keepLine (trim l)"
    using trim_runLine_head by (fastforce simp: keepLine_def)
  then show ?thesis by (simp add: filter_id_conv)
qed

lemma prepared_replacementSection:
  "filter keepLine (map trim (replacementSection (repDict template) k)) =
     map (\<lambda>r. trim (replaceLine r)) (repsOfGroup template k)"
proof (cases "repsOfGroup template k = []")
  case True
  then show ?thesis by (simp add: replacementSection_def repDict_def)
next
  case False
  have "filter keepLine (map (\<lambda>r. trim (replaceLine r)) (repsOfGroup template k))
          = map (\<lambda>r. trim (replaceLine r)) (repsOfGroup template k)"
    by (rule filter_map_all) (rule keep_trim_replaceLine)
  with False show ?thesis
    by (simp add: replacementSection_def repDict_def trim_space isSpace_def
          trim_comment trim_Nil keepLine_def [of "[]"] o_def)
qed

lemma prepared_installLines:
  "filter keepLine (map trim (installLines (repDict template) template)) =
     ''ON INSTALL'' # copyLine
       # map (\<lambda>r. trim (replaceLine r)) (renderedReplacements template)
       @ map trim (runLines template) @ [''END'']"
proof -
  have on: "trim ''ON INSTALL'' = ''ON INSTALL''" by code_simp
  have cp: "trim ''    COPY \".env.example\" TO \".env\"'' = copyLine"
    unfolding copyLine_def by code_simp
  have en: "trim ''END'' = ''END''" by code_simp
  have kc: "keepLine copyLine" unfolding copyLine_def by code_simp
  have ko: "keepLine ''ON INSTALL''" by code_simp
  have ke: "keepLine ''END''" by code_simp
  have c1: "\<not> keepLine (trim ''    # Setup environment'')" by code_simp
  have c2: "\<not> keepLine (trim ''    # Run setup commands'')" by code_simp
  have c3: "\<not> keepLine (trim (''# Template ready! '' @ rocketEmoji))"
    using trim_comment [of "'' Template ready! '' @ rocketEmoji"] by simp
  have rs: "filter keepLine (map trim (concat (map (replacementSection (repDict template))
                (groupOrder @ [''other''])))) =
            map (\<lambda>r. trim (replaceLine r)) (renderedReplacements template)"
    by (simp add: renderedReplacements_def map_concat filter_concat o_def
          prepared_replacementSection)
  show ?thesis
    unfolding installLines_def
    using rs
    by (simp add: on [simplified] cp [simplified] en [simplified] kc ko [simplified] ke [simplified]
          c1 [simplified] c2 [simplified] c3 [simplified]
          trim_comment trim_Nil keepLine_def [of "[]"] keep_trim_runLines)
qed


subsection \<open>Lines without line feeds\<close>

definition singleLine :: "string \<Rightarrow> bool" where
  "singleLine s = (newline \<notin> set s)"

definition lineSafe :: "KloreTemplate \<Rightarrow> bool" where
  "lineSafe template =
     (singleLine (name template) \<and> singleLine (version template) \<and>
      (case framework template of None \<Rightarrow> True | Some f \<Rightarrow> singleLine f) \<and>
      (case aiHints template of None \<Rightarrow> True | Some hints \<Rightarrow> list_all singleLine hints) \<and>
      list_all (\<lambda>v. singleLine (var_name v)) (variables template) \<and>
      list_all (\<lambda>r. singleLine (rep_variable r) \<and> list_all singleLine (rep_filePatterns r))
        (replacements template) \<and>
      (case onInstall template of None \<Rightarrow> True | Some cmds \<Rightarrow> list_all singleLine cmds))"

lemma singleLine_append [simp]: "singleLine (a @ b) = (singleLine a \<and> singleLine b)"
  by (auto simp: singleLine_def)

lemma singleLine_Cons [simp]: "singleLine (c # s) = (c \<noteq> newline \<and> singleLine s)"
  by (auto simp: singleLine_def)

lemma singleLine_Nil [simp]: "singleLine []"
  by (simp add: singleLine_def)

lemma replaceAll_char:
  "replaceAll [c] rep s = concat (map (\<lambda>x. if x = c then rep else [x]) s)"
  by (induction s) auto

lemma singleLine_replace_newline: "singleLine rep \<Longrightarrow> singleLine (replaceAll [newline] rep s)"
  by (induction s) (auto simp: replaceAll_char)

lemma singleLine_escapeOriginal: "singleLine (escapeOriginal s)"
  unfolding escapeOriginal_def by (rule singleLine_replace_newline) simp

lemma singleLine_take: "singleLine s \<Longrightarrow> singleLine (take n s)"
  by (auto simp: singleLine_def dest: in_set_takeD)

lemma singleLine_dashSpaces: "singleLine (dashSpaces s)"
  by (induction s rule: dashSpaces.induct) (auto simp: isSpace_def)

lemma toLowerChar_range: "toLowerChar c = c \<or> toLowerChar c \<in> set lowerLetters"
  by (auto simp: toLowerChar_def split: option.splits dest!: map_of_SomeD set_zip_rightD)

lemma toUpperChar_range: "toUpperChar c = c \<or> toUpperChar c \<in> set upperLetters"
  by (auto simp: toUpperChar_def split: option.splits dest!: map_of_SomeD set_zip_rightD)

lemma singleLine_toLowerCase: "singleLine s \<Longrightarrow> singleLine (toLowerCase s)"
proof (induction s)
  case Nil
  then show ?case by (simp add: toLowerCase_def)
next
  case (Cons c s)
  have "toLowerChar c \<noteq> newline"
    using toLowerChar_range [of c] Cons.prems by (auto simp: lowerLetters_def)
  with Cons show ?case by (simp add: toLowerCase_def)
qed

lemma singleLine_toUpperCase: "singleLine s \<Longrightarrow> singleLine (toUpperCase s)"
proof (induction s)
  case Nil
  then show ?case by (simp add: toUpperCase_def)
next
  case (Cons c s)
  have "toUpperChar c \<noteq> newline"
    using toUpperChar_range [of c] Cons.prems by (auto simp: upperLetters_def)
  with Cons show ?case by (simp add: toUpperCase_def)
qed

lemma singleLine_trim: "singleLine s \<Longrightarrow> singleLine (trim s)"
  by (auto simp: singleLine_def trim_def dest!: set_dropWhileD)

lemma singleLine_spaceBeforeCapitals: "singleLine s \<Longrightarrow> singleLine (spaceBeforeCapitals s)"
  by (induction s) (auto simp: spaceBeforeCapitals_def)

definition tableQuestions :: "string list" where
  "tableQuestions = concat (map (\<lambda>(g, tab). map snd tab) questions)"

lemma question_cases:
  "generateSmartQuestion vname k \<in> set tableQuestions \<or>
   generateSmartQuestion vname k \<in> set (map inheritedText inheritedNames) \<or>
   generateSmartQuestion vname k = ''Enter '' @ toLowerCase (trim (spaceBeforeCapitals vname)) @ '':''"
proof (cases "map_of questions k")
  case None
  then show ?thesis by (simp add: generateSmartQuestion_def)
next
  case (Some tab)
  show ?thesis
  proof (cases "map_of tab vname")
    case None
    with Some show ?thesis by (auto simp: generateSmartQuestion_def)
  next
    case (Some q)
    from \<open>map_of questions k = Some tab\<close> have "(k, tab) \<in> set questions" by (rule map_of_SomeD)
    moreover from Some have "(vname, q) \<in> set tab" by (rule map_of_SomeD)
    ultimately have "q \<in> set tableQuestions"
      by (force simp: tableQuestions_def)
    with Some \<open>map_of questions k = Some tab\<close> show ?thesis
      by (simp add: generateSmartQuestion_def)
  qed
qed

lemma singleLine_inheritedTexts: "list_all singleLine (map inheritedText inheritedNames)"
  unfolding singleLine_def by code_simp

lemma singleLine_tableQuestions: "list_all singleLine tableQuestions"
  unfolding tableQuestions_def questions_def singleLine_def by code_simp

lemma singleLine_question: "singleLine vname \<Longrightarrow> singleLine (generateSmartQuestion vname k)"
  using question_cases [of vname k] singleLine_tableQuestions singleLine_inheritedTexts
  by (auto simp: list_all_iff singleLine_toLowerCase singleLine_trim singleLine_spaceBeforeCapitals)

lemma singleLine_askLine: "singleLine (var_name v) \<Longrightarrow> singleLine (askLine k v)"
  by (simp add: askLine_def Let_def singleLine_question singleLine_replace_newline)

lemma singleLine_askLineOther: "singleLine (var_name v) \<Longrightarrow> singleLine (askLineOther v)"
  by (simp add: askLineOther_def Let_def singleLine_question singleLine_replace_newline singleLine_take)

lemma singleLine_joinWith:
  "singleLine sep \<Longrightarrow> list_all singleLine xs \<Longrightarrow> singleLine (joinWith sep xs)"
  by (induction xs rule: induct_list012) auto

lemma singleLine_replaceLine:
  "singleLine (rep_variable r) \<Longrightarrow> list_all singleLine (rep_filePatterns r) \<Longrightarrow>
   singleLine (replaceLine r)"
  by (simp add: replaceLine_def Let_def singleLine_escapeOriginal singleLine_joinWith list_all_iff)

lemma singleLine_decorations:
  "singleLine doubleRule" "singleLine singleRule" "singleLine boxEmoji" "singleLine rocketEmoji"
  "list_all (\<lambda>k. singleLine (groupEmoji k) \<and> singleLine (groupDescription k) \<and>
                  singleLine (toUpperCase (groupDescription k))) (groupOrder @ [''other''])"
  unfolding singleLine_def by code_simp+


lemma lineSafe_vars: "lineSafe template \<Longrightarrow> v \<in> set (variables template) \<Longrightarrow> singleLine (var_name v)"
  by (simp add: lineSafe_def list_all_iff)

lemma singleLine_groupHeader:
  "k \<in> set (groupOrder @ [''other'']) \<Longrightarrow>
   singleLine (groupEmoji k) \<and> singleLine (groupDescription k) \<and>
   singleLine (toUpperCase (groupDescription k))"
  using singleLine_decorations(5) unfolding list_all_iff by blast

lemma singleLine_varSection:
  assumes "lineSafe template" and "k \<in> set groupOrder"
  shows "list_all singleLine (varSection (varDict template) k)"
proof -
  have "\<forall>v\<in>set (varsOfGroup template k). singleLine (askLine k v)"
    using assms(1) by (auto simp: varsOfGroup_def intro: singleLine_askLine lineSafe_vars)
  moreover from assms(2) have "singleLine (groupEmoji k) \<and> singleLine (toUpperCase (groupDescription k))"
    using singleLine_groupHeader [of k] by simp
  ultimately show ?thesis
    by (auto simp: varSection_def varDict_def list_all_iff singleLine_decorations)
qed

lemma singleLine_otherSection:
  assumes "lineSafe template"
  shows "list_all singleLine (otherSection (varDict template))"
proof -
  have "\<And>k. \<forall>v\<in>set (varsOfGroup template k). singleLine (askLineOther v)"
    using assms by (auto simp: varsOfGroup_def intro: singleLine_askLineOther lineSafe_vars)
  then show ?thesis
    by (auto simp: otherSection_def varDict_def list_all_iff singleLine_decorations)
qed

lemma singleLine_replacementSection:
  assumes "lineSafe template" and "k \<in> set (groupOrder @ [''other''])"
  shows "list_all singleLine (replacementSection (repDict template) k)"
proof -
  have "\<forall>r\<in>set (repsOfGroup template k). singleLine (replaceLine r)"
    using assms(1)
    by (auto simp: repsOfGroup_def lineSafe_def list_all_iff intro!: singleLine_replaceLine)
  moreover from assms(2) have "singleLine (groupEmoji k) \<and> singleLine (groupDescription k)"
    using singleLine_groupHeader [of k] by simp
  ultimately show ?thesis
    by (auto simp: replacementSection_def repDict_def list_all_iff)
qed

lemma singleLine_runMessage: "singleLine cmd \<Longrightarrow> singleLine (runMessage cmd)"
  by (simp add: runMessage_def Let_def)

lemma singleLine_runLines:
  assumes "lineSafe template"
  shows "list_all singleLine (runLines template)"
proof -
  have d: "list_all singleLine defaultRunLines"
    unfolding defaultRunLines_def singleLine_def by code_simp
  from assms have "\<And>cmds. onInstall template = Some cmds \<Longrightarrow> list_all singleLine cmds"
    by (simp add: lineSafe_def)
  with d show ?thesis
    by (auto simp: runLines_def Let_def list_all_iff singleLine_runMessage split: option.splits)
qed

lemma generateLines_singleLine:
  assumes "lineSafe template"
  shows "list_all singleLine (generateLines template)"
proof -
  from assms have h: "list_all singleLine (headerLines template)"
    by (auto simp: headerLines_def lineSafe_def singleLine_dashSpaces split: option.splits)
  from assms have i: "list_all singleLine (hintLines template)"
    by (auto simp: hintLines_def lineSafe_def list_all_iff singleLine_decorations split: option.splits)
  from assms have v: "list_all singleLine (variableLines (varDict template))"
    using singleLine_varSection [OF assms] singleLine_otherSection [OF assms]
    by (auto simp: variableLines_def list_all_iff singleLine_decorations)
  from assms have r: "list_all singleLine (installLines (repDict template) template)"
    using singleLine_replacementSection [OF assms] singleLine_runLines [OF assms]
    by (auto simp: installLines_def list_all_iff singleLine_decorations)
  from h i v r show ?thesis by (simp add: generateLines_def)
qed

text \<open>The prepared lines of a generated definition.\<close>

definition topLines :: "KloreTemplate \<Rightarrow> string list" where
  "topLines template = topHeader template @ askLines template"

definition blockLines :: "KloreTemplate \<Rightarrow> string list" where
  "blockLines template =
     copyLine # map (\<lambda>r. trim (replaceLine r)) (renderedReplacements template)
     @ map trim (runLines template)"

lemma concat_map_singleton: "\<forall>x\<in>set xs. f x = [x] \<Longrightarrow> concat (map f xs) = xs"
  by (induction xs) auto

lemma prepared_generate:
  assumes "lineSafe template"
  shows "prepareLines (generatedText template) =
         topLines template @ ''ON INSTALL'' # blockLines template @ [''END'']"
proof -
  from generateLines_singleLine [OF assms]
  have "\<forall>l\<in>set (generateLines template). newline \<notin> set l"
    by (simp add: list_all_iff singleLine_def)
  then have "\<forall>l\<in>set (generateLines template). splitOn newline l = [l]"
    by (simp add: splitOn_no_sep)
  then have "concat (map (splitOn newline) (generateLines template)) = generateLines template"
    by (rule concat_map_singleton)
  then have "prepareLines (generatedText template) = filter keepLine (map trim (generateLines template))"
    by (simp add: prepareLines_generate)
  then show ?thesis
    by (simp add: generateLines_def prepared_headerLines prepared_hintLines prepared_variableLines
          prepared_installLines topLines_def blockLines_def)
qed


subsection \<open>What the generated lines do when parsed\<close>

lemma firstToken_word:
  assumes "c \<noteq> dquote" "c \<noteq> squote" "c \<noteq> CHR ''[''" "\<not> isSpace c"
    and "\<forall>x\<in>set w. \<not> isSpace x"
  shows "\<exists>ts. tokenize (c # w @ CHR '' '' # rest) = (c # w) # ts"
proof -
  have "takeWhile (\<lambda>x. \<not> isSpace x) (w @ CHR '' '' # rest) = w"
    using assms(5) by (simp add: takeWhile_append2 isSpace_def)
  with assms(1-4) show ?thesis by simp
qed

lemma upper_words:
  "toUpperCase ''NAME'' = ''NAME''" "toUpperCase ''VERSION'' = ''VERSION''"
  "toUpperCase ''FRAMEWORK'' = ''FRAMEWORK''" "toUpperCase ''ASK'' = ''ASK''"
  by code_simp+

lemma tokens_NAME: "\<exists>ts. tokenize (''NAME \"'' @ x) = ''NAME'' # ts"
  using firstToken_word [of "CHR ''N''" "''AME''" "dquote # x"] by (simp add: isSpace_def)

lemma tokens_VERSION: "\<exists>ts. tokenize (''VERSION \"'' @ x) = ''VERSION'' # ts"
  using firstToken_word [of "CHR ''V''" "''ERSION''" "dquote # x"] by (simp add: isSpace_def)

lemma tokens_FRAMEWORK: "\<exists>ts. tokenize (''FRAMEWORK \"'' @ x) = ''FRAMEWORK'' # ts"
  using firstToken_word [of "CHR ''F''" "''RAMEWORK''" "dquote # x"] by (simp add: isSpace_def)

lemma tokens_ASK: "\<exists>ts. tokenize (''ASK '' @ x) = ''ASK'' # ts"
  using firstToken_word [of "CHR ''A''" "''SK''" x] by (simp add: isSpace_def)

lemma tokens_askLine: "\<exists>ts. tokenize (askLine k v) = ''ASK'' # ts"
  using tokens_ASK by (simp add: askLine_def Let_def del: tokenize.simps)

lemma tokens_askLineOther: "\<exists>ts. tokenize (askLineOther v) = ''ASK'' # ts"
  using tokens_ASK by (simp add: askLineOther_def Let_def del: tokenize.simps)

text \<open>The effect of a line by its command.\<close>

lemma lineEffect_command:
  assumes "tokenize l = t0 # ts"
  shows "lineEffect l template =
     (let command = toUpperCase t0
      in if command = ''NAME'' then template\<lparr>name := extractString l\<rparr>
         else if command = ''VERSION'' then template\<lparr>version := extractString l\<rparr>
         else if command = ''AUTHOR'' then template\<lparr>author := extractString l\<rparr>
         else if command = ''DESCRIPTION'' then template\<lparr>description := extractString l\<rparr>
         else if command = ''FRAMEWORK'' then template\<lparr>framework := Some (extractString l)\<rparr>
         else if command = ''REQUIRES'' then template\<lparr>requires := Some (extractArray l)\<rparr>
         else if command = ''VAR'' then template\<lparr>variables := variables template @ [parseVariable (t0 # ts)]\<rparr>
         else if command = ''ASK'' then template\<lparr>variables := variables template @ [parseAsk l]\<rparr>
         else if command = ''GROUP'' then template\<lparr>groups := groups template @ [parseGroup (t0 # ts)]\<rparr>
         else if command = ''REPLACE''
           then template\<lparr>replacements := replacements template @ [parseReplacement l]\<rparr>
         else if command = ''AI_HINT''
           then template\<lparr>aiHints := pushOpt (aiHints template) (extractString l)\<rparr>
         else if command = ''ON_INSTALL'' \<or> command = ''ON''
           then (case parseOnInstall [] 0 template of Inr (cur, template') \<Rightarrow> template' | Inl e \<Rightarrow> template)
         else template)"
  using assms by (simp add: lineEffect_def parseLine_def at_def Let_def)

lemma lineEffect_NAME:
  "tokenize l = ''NAME'' # ts \<Longrightarrow> lineEffect l template = template\<lparr>name := extractString l\<rparr>"
  by (simp add: lineEffect_command upper_words Let_def)

lemma lineEffect_VERSION:
  "tokenize l = ''VERSION'' # ts \<Longrightarrow> lineEffect l template = template\<lparr>version := extractString l\<rparr>"
  by (simp add: lineEffect_command upper_words Let_def)

lemma lineEffect_FRAMEWORK:
  "tokenize l = ''FRAMEWORK'' # ts \<Longrightarrow>
   lineEffect l template = template\<lparr>framework := Some (extractString l)\<rparr>"
  by (simp add: lineEffect_command upper_words Let_def)

lemma lineEffect_ASK:
  "tokenize l = ''ASK'' # ts \<Longrightarrow>
   lineEffect l template = template\<lparr>variables := variables template @ [parseAsk l]\<rparr>"
  by (simp add: lineEffect_command upper_words Let_def)

lemma harmless_word:
  "tokenize l = w # ts \<Longrightarrow> toUpperCase w \<noteq> ''ON_INSTALL'' \<Longrightarrow> toUpperCase w \<noteq> ''ON'' \<Longrightarrow> harmless l"
  by (simp add: harmless_def)

text \<open>The kinds of lines before the block of a generated definition.\<close>

definition headerLine :: "string \<Rightarrow> bool" where
  "headerLine l = (\<exists>ts. tokenize l = ''NAME'' # ts \<or> tokenize l = ''VERSION'' # ts \<or>
                        tokenize l = ''FRAMEWORK'' # ts)"

definition askLineShape :: "string \<Rightarrow> bool" where
  "askLineShape l = (\<exists>ts. tokenize l = ''ASK'' # ts)"

lemma headerLine_harmless: "headerLine l \<Longrightarrow> harmless l"
  by (auto simp: headerLine_def upper_words intro: harmless_word)

lemma askLineShape_harmless: "askLineShape l \<Longrightarrow> harmless l"
  by (auto simp: askLineShape_def upper_words intro: harmless_word)

lemma topHeader_shape:
  assumes "l \<in> set (topHeader template)"
  shows "headerLine l"
proof -
  from assms consider
      "l = ''NAME \"'' @ dashSpaces (toLowerCase (name template)) @ ''-template\"''"
    | "l = ''VERSION \"'' @ version template @ ''\"''"
    | f where "l = ''FRAMEWORK \"'' @ f @ ''\"''"
    by (auto simp: topHeader_def nameLine_def split: option.splits if_splits)
  then show ?thesis
  proof cases
    case 1
    with tokens_NAME [of "dashSpaces (toLowerCase (name template)) @ ''-template\"''"]
    show ?thesis unfolding headerLine_def by blast
  next
    case 2
    with tokens_VERSION [of "version template @ ''\"''"]
    show ?thesis unfolding headerLine_def by blast
  next
    case 3
    with tokens_FRAMEWORK [of "f @ ''\"''"]
    show ?thesis unfolding headerLine_def by blast
  qed
qed

lemma askLines_shape: "l \<in> set (askLines template) \<Longrightarrow> askLineShape l"
  using tokens_askLine tokens_askLineOther
  by (auto simp: askLines_def askLineShape_def)

lemma topLines_harmless: "l \<in> set (topLines template) \<Longrightarrow> harmless l"
  by (auto simp: topLines_def dest: topHeader_shape askLines_shape
           intro: headerLine_harmless askLineShape_harmless)

lemma headerLine_effect:
  "headerLine l \<Longrightarrow>
   variables (lineEffect l template) = variables template \<and>
   replacements (lineEffect l template) = replacements template \<and>
   onInstall (lineEffect l template) = onInstall template"
  by (auto simp: headerLine_def lineEffect_NAME lineEffect_VERSION lineEffect_FRAMEWORK)

lemma askLineShape_effect:
  "askLineShape l \<Longrightarrow>
   variables (lineEffect l template) = variables template @ [parseAsk l] \<and>
   replacements (lineEffect l template) = replacements template \<and>
   onInstall (lineEffect l template) = onInstall template"
  by (auto simp: askLineShape_def lineEffect_ASK)

lemma fold_header:
  "\<forall>l\<in>set A. headerLine l \<Longrightarrow>
   variables (foldl (\<lambda>t l. lineEffect l t) template A) = variables template \<and>
   replacements (foldl (\<lambda>t l. lineEffect l t) template A) = replacements template \<and>
   onInstall (foldl (\<lambda>t l. lineEffect l t) template A) = onInstall template"
  by (induction A arbitrary: template) (simp_all add: headerLine_effect)

lemma fold_ask:
  "\<forall>l\<in>set A. askLineShape l \<Longrightarrow>
   variables (foldl (\<lambda>t l. lineEffect l t) template A) = variables template @ map parseAsk A \<and>
   replacements (foldl (\<lambda>t l. lineEffect l t) template A) = replacements template \<and>
   onInstall (foldl (\<lambda>t l. lineEffect l t) template A) = onInstall template"
  by (induction A arbitrary: template) (simp_all add: askLineShape_effect)

lemma fold_topLines:
  "variables (foldl (\<lambda>t l. lineEffect l t) emptyTemplate (topLines template))
     = map parseAsk (askLines template) \<and>
   replacements (foldl (\<lambda>t l. lineEffect l t) emptyTemplate (topLines template)) = [] \<and>
   onInstall (foldl (\<lambda>t l. lineEffect l t) emptyTemplate (topLines template)) = Some []"
proof -
  have h: "\<forall>l\<in>set (topHeader template). headerLine l" using topHeader_shape by blast
  have a: "\<forall>l\<in>set (askLines template). askLineShape l" using askLines_shape by blast
  show ?thesis
    unfolding topLines_def foldl_append
    using fold_ask [OF a, of "foldl (\<lambda>t l. lineEffect l t) emptyTemplate (topHeader template)"]
      fold_header [OF h, of emptyTemplate]
    by (simp add: emptyTemplate_def)
qed


lemma last_trimEnd: "trimEnd x \<noteq> [] \<Longrightarrow> \<not> isSpace (last (trimEnd x))"
proof -
  assume ne: "trimEnd x \<noteq> []"
  then have "dropWhile isSpace (rev x) \<noteq> []" by (simp add: trimEnd_def)
  then have "\<not> isSpace (hd (dropWhile isSpace (rev x)))" by (rule hd_dropWhile)
  moreover have "last (trimEnd x) = hd (dropWhile isSpace (rev x))"
    using ne by (simp add: trimEnd_def last_rev)
  ultimately show ?thesis by simp
qed

lemma trim_eq_trimEnd: "trim s = trimEnd (dropWhile isSpace s)"
  by (simp add: trim_def trimEnd_def)

lemma trim_shape: "trim s = [] \<or> wrapped (trim s)"
proof (cases "dropWhile isSpace s")
  case Nil
  have "trim s = rev (dropWhile isSpace (rev (dropWhile isSpace s)))" by (simp only: trim_def)
  also have "\<dots> = []" by (simp only: Nil rev.simps dropWhile.simps)
  finally show ?thesis by simp
next
  case (Cons c x)
  then have c: "\<not> isSpace c" using hd_dropWhile [of isSpace s] by auto
  with Cons have t: "trim s = c # trimEnd x"
    using trimEnd_keep [of c "[]" x] by (simp add: trim_eq_trimEnd)
  show ?thesis
  proof (cases "trimEnd x = []")
    case True
    with t c show ?thesis by (simp add: wrapped_def)
  next
    case False
    with t c last_trimEnd [OF False] show ?thesis by (simp add: wrapped_def)
  qed
qed

lemma trim_trim: "trim (trim s) = trim s"
  using trim_shape [of s] by (auto simp: trim_Nil trim_wrapped)

lemma toUpperCase_append: "toUpperCase (a @ b) = toUpperCase a @ toUpperCase b"
  by (simp add: toUpperCase_def)

lemma blockLine_replace_shape:
  assumes "trim l = ''REPLACE \"'' @ y"
  shows "blockLine l template =
         template\<lparr>replacements := replacements template @ [parseReplacement (trim l)]\<rparr>"
proof -
  have u: "toUpperCase ''REPLACE \"'' = ''REPLACE \"''" by code_simp
  have "toUpperCase (trim l) = ''REPLACE \"'' @ toUpperCase y"
    by (simp only: assms toUpperCase_append u)
  then show ?thesis by (simp add: blockLine_def Let_def)
qed

lemma blockLine_run_shape:
  assumes "trim l = ''RUN \"'' @ y"
  shows "blockLine l template =
         (if extractString l \<noteq> []
          then template\<lparr>onInstall := pushOpt (onInstall template) (extractString l)\<rparr>
          else template)"
proof -
  have u: "toUpperCase ''RUN \"'' = ''RUN \"''" by code_simp
  have "toUpperCase (trim l) = ''RUN \"'' @ toUpperCase y"
    by (simp only: assms toUpperCase_append u)
  then show ?thesis by (simp add: blockLine_def Let_def)
qed

lemma not_END_shape:
  assumes "l = CHR ''R'' # y"
  shows "toUpperCase l \<noteq> ''END''"
proof -
  have "toUpperChar (CHR ''R'') = CHR ''R''" by code_simp
  with assms show ?thesis by (simp add: toUpperCase_def)
qed

lemma blockLine_copyLine: "blockLine copyLine template = template"
proof -
  have "\<not> startsWith (toUpperCase (trim copyLine)) ''RUN''"
       "\<not> startsWith (toUpperCase (trim copyLine)) ''REPLACE''"
    unfolding copyLine_def by code_simp+
  then show ?thesis by (simp add: blockLine_def Let_def)
qed

lemma copyLine_not_END: "toUpperCase copyLine \<noteq> ''END''"
  unfolding copyLine_def by code_simp

text \<open>The lines of the block: the replacements first, the commands after them.\<close>

lemma fold_replaceLines:
  "replacements (foldl (\<lambda>t l. blockLine l t) template (map (\<lambda>r. trim (replaceLine r)) rs))
     = replacements template @ map (\<lambda>r. parseReplacement (trim (replaceLine r))) rs \<and>
   variables (foldl (\<lambda>t l. blockLine l t) template (map (\<lambda>r. trim (replaceLine r)) rs))
     = variables template \<and>
   onInstall (foldl (\<lambda>t l. blockLine l t) template (map (\<lambda>r. trim (replaceLine r)) rs))
     = onInstall template"
proof (induction rs arbitrary: template)
  case Nil
  then show ?case by simp
next
  case (Cons r rs)
  from trim_replaceLine_head [of r] obtain y where y: "trim (replaceLine r) = ''REPLACE \"'' @ y"
    by blast
  have "trim (trim (replaceLine r)) = trim (replaceLine r)" by (rule trim_trim)
  also note y
  finally have "trim (trim (replaceLine r)) = ''REPLACE \"'' @ y" .
  from blockLine_replace_shape [OF this, of template]
  have "blockLine (trim (replaceLine r)) template =
        template\<lparr>replacements := replacements template @ [parseReplacement (trim (replaceLine r))]\<rparr>"
    by (simp only: trim_trim)
  with Cons show ?case by simp
qed


definition defaultCommands :: "string list" where
  "defaultCommands =
     [''composer install'', ''php artisan key:generate'', ''php artisan migrate --seed'',
      ''npm install'', ''npm run build'']"

lemma fold_defaultRunLines:
  assumes "onInstall template = Some cmds"
  shows "onInstall (foldl (\<lambda>t l. blockLine l t) template (map trim defaultRunLines))
           = Some (cmds @ defaultCommands)"
proof -
  have tr: "map trim defaultRunLines =
        [''RUN \"composer install\" MESSAGE \"Installing PHP dependencies...\"'',
         ''RUN \"php artisan key:generate\" MESSAGE \"Generating app key...\"'',
         ''RUN \"php artisan migrate --seed\" MESSAGE \"Setting up database...\"'',
         ''RUN \"npm install\" MESSAGE \"Installing Node dependencies...\"'',
         ''RUN \"npm run build\" MESSAGE \"Building assets...\"'']"
    unfolding defaultRunLines_def by code_simp
  have t1: "trim ''RUN \"composer install\" MESSAGE \"Installing PHP dependencies...\"''
              = ''RUN \"'' @ ''composer install\" MESSAGE \"Installing PHP dependencies...\"''"
    by code_simp
  have t2: "trim ''RUN \"php artisan key:generate\" MESSAGE \"Generating app key...\"''
              = ''RUN \"'' @ ''php artisan key:generate\" MESSAGE \"Generating app key...\"''"
    by code_simp
  have t3: "trim ''RUN \"php artisan migrate --seed\" MESSAGE \"Setting up database...\"''
              = ''RUN \"'' @ ''php artisan migrate --seed\" MESSAGE \"Setting up database...\"''"
    by code_simp
  have t4: "trim ''RUN \"npm install\" MESSAGE \"Installing Node dependencies...\"''
              = ''RUN \"'' @ ''npm install\" MESSAGE \"Installing Node dependencies...\"''"
    by code_simp
  have t5: "trim ''RUN \"npm run build\" MESSAGE \"Building assets...\"''
              = ''RUN \"'' @ ''npm run build\" MESSAGE \"Building assets...\"''"
    by code_simp
  have e: "extractString ''RUN \"composer install\" MESSAGE \"Installing PHP dependencies...\"'' = ''composer install''"
     "extractString ''RUN \"php artisan key:generate\" MESSAGE \"Generating app key...\"'' = ''php artisan key:generate''"
     "extractString ''RUN \"php artisan migrate --seed\" MESSAGE \"Setting up database...\"'' = ''php artisan migrate --seed''"
     "extractString ''RUN \"npm install\" MESSAGE \"Installing Node dependencies...\"'' = ''npm install''"
     "extractString ''RUN \"npm run build\" MESSAGE \"Building assets...\"'' = ''npm run build''"
    by code_simp+
  show ?thesis
    unfolding tr
    using assms
    by (simp add: blockLine_run_shape [OF t1] blockLine_run_shape [OF t2] blockLine_run_shape [OF t3]
          blockLine_run_shape [OF t4] blockLine_run_shape [OF t5] e pushOpt_def defaultCommands_def)
qed


subsection \<open>Parsing a generated definition\<close>

definition parsedBack :: "KloreTemplate \<Rightarrow> KloreTemplate" where
  "parsedBack template =
     foldl (\<lambda>t l. blockLine l t)
       (foldl (\<lambda>t l. lineEffect l t) emptyTemplate (topLines template))
       (blockLines template)"

lemma blockLines_not_END: "l \<in> set (blockLines template) \<Longrightarrow> toUpperCase l \<noteq> ''END''"
proof -
  assume "l \<in> set (blockLines template)"
  then consider "l = copyLine"
    | r where "l = trim (replaceLine r)"
    | rl where "rl \<in> set (runLines template)" "l = trim rl"
    by (auto simp: blockLines_def)
  then show ?thesis
  proof cases
    case 1
    then show ?thesis by (simp add: copyLine_not_END)
  next
    case 2
    with trim_replaceLine_head [of r] obtain y where "l = CHR ''R'' # y" by auto
    then show ?thesis by (rule not_END_shape)
  next
    case 3
    with trim_runLine_head [of rl template] obtain y where "l = CHR ''R'' # y" by auto
    then show ?thesis by (rule not_END_shape)
  qed
qed

lemma parse_generated:
  assumes "lineSafe template"
  shows "parseKlore (generatedText template) = Inr (parsedBack template)"
proof -
  have top: "\<forall>l\<in>set (topLines template). harmless l"
    using topLines_harmless by blast
  have blk: "\<forall>l\<in>set (blockLines template). toUpperCase l \<noteq> ''END''"
    using blockLines_not_END by blast
  from parseLoop_top_then_block [OF top blk, of emptyTemplate]
  show ?thesis
    by (simp add: parseKlore_def parse_def prepared_generate [OF assms] parsedBack_def)
qed

lemma regenerate_plain:
  assumes "plainGroups template" and "lineSafe template"
  shows "regenerate template = Inr (parsedBack template)"
  by (simp add: regenerate_def generateKlore_plain [OF assms(1)] parse_generated [OF assms(2)])



lemma parsedBack_onInstall_default:
  assumes "runLines template = defaultRunLines"
  shows "onInstall (parsedBack template) = Some defaultCommands"
proof -
  let ?tA = "foldl (\<lambda>t l. lineEffect l t) emptyTemplate (topLines template)"
  let ?tR = "foldl (\<lambda>t l. blockLine l t) ?tA
               (map (\<lambda>r. trim (replaceLine r)) (renderedReplacements template))"
  have a: "onInstall ?tA = Some []" using fold_topLines [of template] by simp
  have r: "onInstall ?tR = Some []" using fold_replaceLines [of ?tA] a by simp
  have "parsedBack template = foldl (\<lambda>t l. blockLine l t) ?tR (map trim defaultRunLines)"
    by (simp add: parsedBack_def blockLines_def assms blockLine_copyLine)
  with fold_defaultRunLines [OF r] show ?thesis by simp
qed

definition noCommands :: "KloreTemplate \<Rightarrow> bool" where
  "noCommands template = (case onInstall template of None \<Rightarrow> True | Some cmds \<Rightarrow> cmds = [])"

lemma noCommands_runLines: "noCommands template \<Longrightarrow> runLines template = defaultRunLines"
  by (simp add: noCommands_def runLines_def split: option.splits)

definition shopTemplate :: KloreTemplate where
  "shopTemplate =
     emptyTemplate\<lparr> name := ''My Shop'',
       variables :=
         [\<lparr>var_name = ''storeName'', var_type = ''STRING'',
           var_defaultValue = ''Acme'', var_required = True\<rparr>,
          \<lparr>var_name = ''count'', var_type = ''NUMBER'',
           var_defaultValue = ''5'', var_required = False\<rparr>,
          \<lparr>var_name = ''primaryColor'', var_type = ''COLOR'',
           var_defaultValue = ''#ff7800'', var_required = False\<rparr>],
       groups := [\<lparr>grp_name = ''colors'', grp_variables = [''primaryColor'']\<rparr>,
                  \<lparr>grp_name = ''branding'', grp_variables = [''storeName'']\<rparr>],
       replacements :=
         [\<lparr>rep_original = ''Acme'', rep_variable = ''storeName'',
           rep_filePatterns = [''index.html'', ''app/config.php'']\<rparr>,
          \<lparr>rep_original = ''#ff7800'', rep_variable = ''primaryColor'',
           rep_filePatterns = [''css/site.css'']\<rparr>] \<rparr>"

definition injectedTemplate :: KloreTemplate where
  "injectedTemplate =
     emptyTemplate\<lparr> name := ''Shop'' @ [newline] @ ''ON'' @ [newline] @ ''RUN \"rm -rf .\"'' \<rparr>"

lemma injected_lines:
  "prepareLines (generatedText injectedTemplate) =
     [''ON'', ''RUN \"rm -rf .\" Template'', ''NAME \"shop-on-run-\"rm--rf-.\"-template\"'',
      ''VERSION \"1.0.0\"'', ''ON INSTALL'', copyLine] @ map trim defaultRunLines @ [''END'']"
  unfolding prepareLines_generate injectedTemplate_def emptyTemplate_def copyLine_def defaultRunLines_def
  by code_simp

subsection \<open>Escaped originals read back\<close>














subsection \<open>Reading a generated REPLACE line back\<close>


































lemma startsWith_prefix: "startsWith (p @ x) p"
  by (induction p) auto







subsection \<open>ASK lines\<close>














































subsection \<open>The parsed template\<close>

















text \<open>
  Outside of these conditions the lines are read back differently: a replacement variable
  ending in IN, a variable name ending in DEFAULT, a name holding REQUIRED, a default
  with a quote in it.
\<close>

definition domainReplacement :: KloreReplacement where
  "domainReplacement =
     \<lparr>rep_original = ''example.com'', rep_variable = ''domain'', rep_filePatterns = [''a.txt'']\<rparr>"

lemma replacement_variable_ending_in_IN:
  "parseReplacement (trim (replaceLine domainReplacement)) =
     \<lparr>rep_original = ''example.com'', rep_variable = ''domain'', rep_filePatterns = ['' IN '']\<rparr>"
  unfolding domainReplacement_def by code_simp

lemma variable_name_ending_in_DEFAULT:
  "parseAsk (askLineOther \<lparr>var_name = ''themeDefault'', var_type = ''STRING'',
                            var_defaultValue = ''dark'', var_required = False\<rparr>) =
     \<lparr>var_name = ''themeDefault'', var_type = ''STRING'',
      var_defaultValue = ''Enter theme default:'', var_required = False\<rparr>"
  by code_simp

lemma variable_name_with_REQUIRED:
  "parseAsk (askLineOther \<lparr>var_name = ''requiredField'', var_type = ''STRING'',
                            var_defaultValue = ''x'', var_required = False\<rparr>) =
     \<lparr>var_name = ''requiredField'', var_type = ''STRING'',
      var_defaultValue = ''x'', var_required = True\<rparr>"
  by code_simp

lemma default_with_quote:
  "parseAsk (askLineOther \<lparr>var_name = ''motto'', var_type = ''STRING'',
                            var_defaultValue = ''say \"hi\"'', var_required = False\<rparr>) =
     \<lparr>var_name = ''motto'', var_type = ''STRING'',
      var_defaultValue = ''say '' @ [bslash], var_required = False\<rparr>"
  by code_simp





section \<open>Facts about the replacement engine\<close>

lemma literalOfPattern_plain:
  "c \<notin> set regexSpecials \<Longrightarrow>
   literalOfPattern (c # p) = map_option (Cons c) (literalOfPattern p)"
  by (cases p) (auto simp: regexSpecials_def)

lemma literalOfPattern_escaped:
  "d \<in> set regexSpecials \<Longrightarrow>
   literalOfPattern (bslash # d # p) = map_option (Cons d) (literalOfPattern p)"
  by simp

lemma escapeRegExp_Cons:
  "escapeRegExp (c # s) = (if c \<in> set regexSpecials then [bslash, c] else [c]) @ escapeRegExp s"
  by (simp add: escapeRegExp_def)

lemma literalOfPattern_escape: "literalOfPattern (escapeRegExp s) = Some s"
proof (induction s)
  case Nil
  then show ?case by (simp add: escapeRegExp_def)
next
  case (Cons c s)
  show ?case
  proof (cases "c \<in> set regexSpecials")
    case True
    with Cons show ?thesis
      by (simp only: escapeRegExp_Cons if_True append_Cons append_Nil
            literalOfPattern_escaped option.map)
  next
    case False
    with Cons show ?thesis
      by (simp add: escapeRegExp_Cons literalOfPattern_plain del: literalOfPattern.simps)
  qed
qed

lemma expandReplacement_plain:
  "CHR ''$'' \<notin> set v \<Longrightarrow> expandReplacement v matched pre post = v"
  by (induction v matched pre post rule: expandReplacement.induct) auto

lemma replaceGlobal_plain:
  "CHR ''$'' \<notin> set v \<Longrightarrow> replaceGlobal pat v pre s = replaceAll pat v s"
  by (induction pat v pre s rule: replaceGlobal.induct)
     (auto simp: expandReplacement_plain)

lemma applyReplacement_literal:
  "applyReplacement values result r =
     Inr (case values (rep_variable r) of
            None \<Rightarrow> result
          | Some value \<Rightarrow>
              if rep_original r = [] then result
              else replaceGlobal (rep_original r) value [] result)"
  by (simp add: applyReplacement_def literalOfPattern_escape split: option.splits)

lemma applyReplacements_total: "\<exists>result. applyReplacements content rs values = Inr result"
  by (induction rs arbitrary: content) (simp_all add: applyReplacement_literal)

text \<open>Inputs used as concrete cases below.\<close>

definition taglineReplacement :: KloreReplacement where
  "taglineReplacement =
     \<lparr> rep_original = ''Acme'', rep_variable = ''tagline'', rep_filePatterns = [catchAll] \<rparr>"

definition taglineValues :: "string \<rightharpoonup> string" where
  "taglineValues = [''tagline'' \<mapsto> ''Save $$$ today'']"

section \<open>Facts about the installer\<close>

lemma readKloreFile_ok:
  assumes "map_of fs (templatePath @ [''.klore'']) \<noteq> Some Directory"
  shows "\<exists>t. readKloreFile templatePath fs = Inr t"
proof (cases "map_of fs (templatePath @ [''.klore''])")
  case None
  then show ?thesis by (simp add: readKloreFile_def existsSync_def)
next
  case (Some n)
  with assms obtain content where n: "n = File content" by (cases n) auto
  from parseLoop_total obtain t where "parseKlore content = Inr t"
    unfolding parseKlore_def parse_def by blast
  with Some n show ?thesis
    by (simp add: readKloreFile_def existsSync_def readFile_def)
qed







text \<open>Worlds, options and collaborators used as concrete cases below.\<close>

definition brokenWorld :: world where
  "brokenWorld =
     \<lparr> files = [([''tpl''], Directory), ([''tpl'', ''.klore''], Directory), ([''out''], Directory)],
       textAnswers = [], confirmAnswers = [] \<rparr>"

definition plainWorld :: world where
  "plainWorld =
     \<lparr> files = [([''tpl''], Directory),
                ([''tpl'', ''.klore''], File ''ASK companyName \"What is your company name?\" REQUIRED''),
                ([''tpl'', ''index.html''], File ''<h1>Welcome</h1>''),
                ([''out''], Directory)],
       textAnswers = [Some ''Globex''], confirmAnswers = [] \<rparr>"

definition toOut :: InstallOptions where
  "toOut = \<lparr> opt_templatePath = [''tpl''], opt_outputPath = [''out''],
              opt_force = False, opt_values = None \<rparr>"

definition noURL :: "string \<Rightarrow> bool" where
  "noURL s = False"

definition idleShell :: "string \<Rightarrow> path \<Rightarrow> fsys \<Rightarrow> string option \<times> fsys" where
  "idleShell cmd cwd fs = (None, fs)"


definition companyName :: KloreVariable where
  "companyName = \<lparr> var_name = ''companyName'', var_type = ''STRING'',
                    var_defaultValue = [], var_required = True \<rparr>"






section \<open>Results on the escaping of originals\<close>

text \<open>
  C2. The parser's unescaping of a REPLACE original is claimed to invert the generator's
  escaping for every string. The three unescaping passes run one after the other over
  the whole text, and the first one looks for a backslash followed by \<^verbatim>\<open>n\<close> before
  the doubled backslashes have been paired: the two-character original made of a
  backslash and the letter \<^verbatim>\<open>n\<close> (as in a Windows path or a PHP namespace) is escaped
  to backslash, backslash, \<^verbatim>\<open>n\<close>, and comes back as a backslash followed by a real
  newline.
\<close>

theorem escape_roundtrip_backslash_n:
  "escapeOriginal [bslash, CHR ''n''] = [bslash, bslash, CHR ''n''] \<and>
   unescapeOriginal (escapeOriginal [bslash, CHR ''n'']) = [bslash, newline] \<and>
   unescapeOriginal (escapeOriginal [bslash, CHR ''n'']) \<noteq> [bslash, CHR ''n'']"
  by (simp add: escapeOriginal_def unescapeOriginal_def)

section \<open>Results on the parser\<close>

text \<open>
  C4. For every input text \<^verbatim>\<open>parseKlore\<close> returns a template: none of the reads by index
  in \<^verbatim>\<open>parse\<close>, \<^verbatim>\<open>parseLine\<close> and \<^verbatim>\<open>parseOnInstall\<close> meets \<^verbatim>\<open>undefined\<close>, and both
  loops over the lines end (their termination is part of the definitions of
  \<^const>\<open>parseLoop\<close> and \<^const>\<open>onInstallLoop\<close>). A malformed line changes at most the
  field its command names, to an empty or default value.
\<close>

theorem parseKlore_total: "\<exists>t. parseKlore content = Inr t"
  unfolding parseKlore_def parse_def by (rule parseLoop_total)

text \<open>
  C8. The type of a variable read from a VAR line is claimed to be STRING whenever the
  type token is absent or not one of the six recognised types. \<^verbatim>\<open>parseVariable\<close> falls
  back to STRING only when the line has no third token; any third token is upper-cased
  and cast to the variable type unchecked. The line \<^verbatim>\<open>VAR count INTEGER "5"\<close> gives the
  type \<^verbatim>\<open>INTEGER\<close>, which is outside the declared union of types.
\<close>

theorem parseVariable_unknown_type:
  "var_type (parseVariable (tokenize varLineUnknownType)) = ''INTEGER'' \<and>
   ''INTEGER'' \<notin> set recognizedTypes \<and>
   var_type (parseVariable (tokenize varLineUnknownType)) \<noteq> ''STRING''"
  unfolding varLineUnknownType_def recognizedTypes_def by code_simp

text \<open>
  C6, as stated: a REPLACE line without the keyword WITH is claimed to give the no-op
  replacement. \<^verbatim>\<open>parseReplacement\<close> tests for the letters \<^verbatim>\<open>WITH\<close> anywhere in the line,
  not for the keyword: in \<^verbatim>\<open>REPLACE "Pay WITH card" IN "a.html"\<close> no token is the keyword
  WITH, the test passes on the letters inside the original, and the result keeps the
  original and the file pattern with an empty variable.
\<close>

theorem parseReplacement_with_inside_original:
  "isReplaceLine replaceLineNoWithKeyword \<and>
   ''WITH'' \<notin> set (map toUpperCase (tokenize replaceLineNoWithKeyword)) \<and>
   parseReplacement replaceLineNoWithKeyword =
     \<lparr> rep_original = ''Pay WITH card'', rep_variable = [], rep_filePatterns = [''a.html''] \<rparr> \<and>
   parseReplacement replaceLineNoWithKeyword \<noteq> noopReplacement"
  unfolding replaceLineNoWithKeyword_def noopReplacement_def by code_simp

text \<open>
  C6, amended: a REPLACE line of ASCII text in which the letters \<^verbatim>\<open>REPLACE\<close> or the letters \<^verbatim>\<open>WITH\<close>
  occur nowhere, or whose text after the first \<^verbatim>\<open>REPLACE\<close> does not open with a double
  quote, or opens with one that no later unescaped double quote closes (a quote is escaped
  when an odd number of backslashes stands directly before it), gives the no-op
  replacement (empty original, empty variable, the single catch-all pattern); and the
  loop goes on with the next line with nothing but that replacement appended to the
  template, the loop of \<^verbatim>\<open>parse\<close> for a line at the top level and the loop of
  \<^verbatim>\<open>parseOnInstall\<close> for a line inside a block, which hands the trimmed line to
  \<^verbatim>\<open>parseReplacement\<close>.
\<close>

theorem parseReplacement_deviation_noop:
  assumes "cur < length lines" and "lines ! cur = line"
  shows "(ascii line \<and> isReplaceLine line \<and> deviates line \<longrightarrow>
            parseReplacement line = noopReplacement \<and>
            parseLoop lines cur template =
              parseLoop lines (cur + 1)
                (template\<lparr>replacements := replacements template @ [noopReplacement]\<rparr>)) \<and>
         (ascii line \<and> startsWith (toUpperCase (trim line)) ''REPLACE'' \<and>
          deviates (trim line) \<longrightarrow>
            parseReplacement (trim line) = noopReplacement \<and>
            onInstallLoop lines cur template =
              onInstallLoop lines (cur + 1)
                (template\<lparr>replacements := replacements template @ [noopReplacement]\<rparr>))"
proof (intro conjI impI)
  assume a: "ascii line \<and> isReplaceLine line \<and> deviates line"
  then show noop: "parseReplacement line = noopReplacement"
    by (simp add: parseReplacement_deviates)
  from a have
    "parseLine lines cur line template =
     Inr (cur, template\<lparr>replacements := replacements template @ [parseReplacement line]\<rparr>)"
    by (simp add: parseLine_replace)
  with noop assms show
    "parseLoop lines cur template =
     parseLoop lines (cur + 1)
       (template\<lparr>replacements := replacements template @ [noopReplacement]\<rparr>)"
    by (subst parseLoop.simps) simp
next
  assume b: "ascii line \<and> startsWith (toUpperCase (trim line)) ''REPLACE'' \<and>
             deviates (trim line)"
  then show noop: "parseReplacement (trim line) = noopReplacement"
    by (simp add: parseReplacement_deviates)
  from b replace_line_in_block [of line template]
  have "toUpperCase line \<noteq> ''END''"
    and "blockLine line template =
           template\<lparr>replacements := replacements template @ [parseReplacement (trim line)]\<rparr>"
    by simp_all
  with noop assms show
    "onInstallLoop lines cur template =
     onInstallLoop lines (cur + 1)
       (template\<lparr>replacements := replacements template @ [noopReplacement]\<rparr>)"
    by (subst onInstallLoop.simps) (simp add: at_def)
qed

theorem parseReplacement_deviation_noop_witness:
  "ascii replaceLineEscapedQuote \<and> ascii (''  '' @ replaceLineEscapedQuote) \<and>
   isReplaceLine replaceLineEscapedQuote \<and> deviates replaceLineEscapedQuote \<and>
   startsWith (toUpperCase (trim (''  '' @ replaceLineEscapedQuote))) ''REPLACE'' \<and>
   deviates (trim (''  '' @ replaceLineEscapedQuote)) \<and>
   parseReplacement replaceLineEscapedQuote = noopReplacement \<and>
   parseLoop [replaceLineEscapedQuote, ''NAME \"shop\"''] 0 emptyTemplate =
     parseLoop [replaceLineEscapedQuote, ''NAME \"shop\"''] (0 + 1)
       (emptyTemplate\<lparr>replacements := replacements emptyTemplate @ [noopReplacement]\<rparr>) \<and>
   onInstallLoop [''  '' @ replaceLineEscapedQuote, ''END''] 0 emptyTemplate =
     onInstallLoop [''  '' @ replaceLineEscapedQuote, ''END''] (0 + 1)
       (emptyTemplate\<lparr>replacements := replacements emptyTemplate @ [noopReplacement]\<rparr>) \<and>
   parseKlore (replaceLineEscapedQuote @ [newline] @ ''NAME \"shop\"'') =
     Inr (emptyTemplate\<lparr>name := ''shop'', replacements := [noopReplacement]\<rparr>) \<and>
   parseKlore (''ON INSTALL'' @ [newline] @ ''  '' @ replaceLineEscapedQuote @ [newline]
               @ ''RUN \"make\"'' @ [newline] @ ''END'') =
     Inr (emptyTemplate\<lparr>replacements := [noopReplacement], onInstall := Some [''make'']\<rparr>)"
proof -
  have h0: "ascii replaceLineEscapedQuote" "ascii (''  '' @ replaceLineEscapedQuote)"
    unfolding replaceLineEscapedQuote_def ascii_def by code_simp+
  have h1: "isReplaceLine replaceLineEscapedQuote"
    unfolding replaceLineEscapedQuote_def by code_simp
  have h2: "deviates replaceLineEscapedQuote"
    unfolding replaceLineEscapedQuote_def by code_simp
  have h3: "startsWith (toUpperCase (trim (''  '' @ replaceLineEscapedQuote))) ''REPLACE''"
    unfolding replaceLineEscapedQuote_def by code_simp
  have h4: "deviates (trim (''  '' @ replaceLineEscapedQuote))"
    unfolding replaceLineEscapedQuote_def by code_simp
  have p1: "parseKlore (replaceLineEscapedQuote @ [newline] @ ''NAME \"shop\"'') =
     Inr (emptyTemplate\<lparr>name := ''shop'', replacements := [noopReplacement]\<rparr>)"
    unfolding replaceLineEscapedQuote_def emptyTemplate_def noopReplacement_def by code_simp
  have p2: "parseKlore (''ON INSTALL'' @ [newline] @ ''  '' @ replaceLineEscapedQuote @ [newline]
               @ ''RUN \"make\"'' @ [newline] @ ''END'') =
     Inr (emptyTemplate\<lparr>replacements := [noopReplacement], onInstall := Some [''make'']\<rparr>)"
    unfolding replaceLineEscapedQuote_def emptyTemplate_def noopReplacement_def by code_simp
  have a: "(0::nat) < length [replaceLineEscapedQuote, ''NAME \"shop\"'']"
    and b: "[replaceLineEscapedQuote, ''NAME \"shop\"''] ! 0 = replaceLineEscapedQuote" by simp_all
  have c: "(0::nat) < length [''  '' @ replaceLineEscapedQuote, ''END'']"
    and d: "[''  '' @ replaceLineEscapedQuote, ''END''] ! 0 = ''  '' @ replaceLineEscapedQuote"
    by simp_all
  from parseReplacement_deviation_noop [OF a b, of emptyTemplate]
    parseReplacement_deviation_noop [OF c d, of emptyTemplate] h0 h1 h2 h3 h4 p1 p2
  show ?thesis by blast
qed

section \<open>Results on the generator\<close>





section \<open>Results on the replacement engine\<close>

text \<open>
  C3. \<^verbatim>\<open>applyReplacements\<close> is claimed to put the resolved value in the place of every
  literal occurrence of the original. The search is literal: the pattern built from the
  escaped original matches the original and nothing else (\<open>literalOfPattern_escape\<close>),
  and the replacements run in list order on the running content. The value, however, is
  handed to \<^verbatim>\<open>replace\<close> as a replacement template, where a dollar sign is special: with
  the value \<^verbatim>\<open>Save $$$ today\<close> the occurrence of \<^verbatim>\<open>Acme\<close> becomes \<^verbatim>\<open>Save $$ today\<close>,
  not the value.
\<close>

theorem applyReplacements_dollar_value:
  "applyReplacements ''<h1>Acme</h1>'' [taglineReplacement] taglineValues
     = Inr ''<h1>Save $$ today</h1>'' \<and>
   applyReplacements ''<h1>Acme</h1>'' [taglineReplacement] taglineValues
     \<noteq> Inr ''<h1>Save $$$ today</h1>''"
  by (simp add: applyReplacement_literal taglineReplacement_def taglineValues_def)

section \<open>Results on the installer\<close>

text \<open>
  C5, as stated: with the destination present and no overwrite flag, \<^verbatim>\<open>installTemplate\<close>
  is claimed to return a result with \<^verbatim>\<open>success=false\<close>. The definition file is read first,
  outside any \<^verbatim>\<open>try\<close>: when \<^verbatim>\<open>.klore\<close> exists but cannot be read (here it is a
  directory), the promise is rejected with the read error and no result object is
  returned. Nothing is written in that case either.
\<close>

theorem installTemplate_rejects_on_unreadable_definition:
  "existsSync (files brokenWorld) (opt_outputPath toOut) \<and> \<not> opt_force toOut \<and>
   installTemplate noURL idleShell 8 toOut brokenWorld = Some (Inl (IOError ''EISDIR''), brokenWorld)"
  unfolding brokenWorld_def toOut_def by code_simp

text \<open>
  C5, amended: if the destination exists and the overwrite flag is not set, and the
  template's \<^verbatim>\<open>.klore\<close> is absent or a readable file, \<^verbatim>\<open>installTemplate\<close> returns at once
  a result with \<^verbatim>\<open>success=false\<close>, \<^verbatim>\<open>filesCreated=0\<close> and \<^verbatim>\<open>replacementsApplied=0\<close>, and the
  world (the files and the pending answers of the user) is as before.
\<close>

theorem installTemplate_output_exists:
  assumes "existsSync (files w) (opt_outputPath options)" and "\<not> opt_force options"
    and "map_of (files w) (opt_templatePath options @ [''.klore'']) \<noteq> Some Directory"
  shows "\<exists>res. installTemplate isURL shell depth options w = Some (Inr res, w) \<and>
               \<not> res_success res \<and> res_filesCreated res = 0 \<and> res_replacementsApplied res = 0"
proof -
  from readKloreFile_ok [OF assms(3)] obtain t where
    t: "readKloreFile (opt_templatePath options) (files w) = Inr t" by blast
  show ?thesis
  proof (cases t)
    case None
    with t show ?thesis by (simp add: installTemplate_def failure_def)
  next
    case (Some template)
    with t assms(1,2) show ?thesis by (simp add: installTemplate_def failure_def)
  qed
qed

theorem installTemplate_output_exists_witness:
  "existsSync (files plainWorld) (opt_outputPath toOut) \<and> \<not> opt_force toOut \<and>
   installTemplate noURL idleShell 8 toOut plainWorld =
     Some (Inr (failure [''out''] ''Output directory already exists. Use --force to overwrite.''),
           plainWorld) \<and>
   (\<exists>res. installTemplate noURL idleShell 8 toOut plainWorld = Some (Inr res, plainWorld) \<and>
          \<not> res_success res \<and> res_filesCreated res = 0 \<and> res_replacementsApplied res = 0)"
proof -
  have h1: "existsSync (files plainWorld) (opt_outputPath toOut)"
    unfolding plainWorld_def toOut_def by code_simp
  have h2: "\<not> opt_force toOut"
    unfolding toOut_def by simp
  have h3: "map_of (files plainWorld) (opt_templatePath toOut @ [''.klore'']) \<noteq> Some Directory"
    unfolding plainWorld_def toOut_def by code_simp
  have ev: "installTemplate noURL idleShell 8 toOut plainWorld =
     Some (Inr (failure [''out''] ''Output directory already exists. Use --force to overwrite.''),
           plainWorld)"
    unfolding plainWorld_def toOut_def by code_simp
  from installTemplate_output_exists [OF h1 h2 h3, of noURL idleShell 8] h1 h2 ev
  show ?thesis by simp
qed





section \<open>Results on the round trip\<close>




text \<open>
  C10, as stated: for every template without install commands the parsed generated text
  is claimed to list the five default commands. The generator writes the template's name
  (and its version, framework, hints, variable names, replacement variables and file
  patterns) into the text unescaped: a name holding line feeds adds lines of its own.
  Here the name opens a block with a command in it, and that command is parsed first.
  And for a template that files a variable under a group named \<^verbatim>\<open>constructor\<close>, the
  dictionary of the groups, a plain object, finds the inherited property under that key:
  \<^verbatim>\<open>generateKlore\<close> throws a \<^verbatim>\<open>TypeError\<close> and there is no text to parse.
\<close>

theorem default_commands_injection:
  "noCommands injectedTemplate \<and>
   regenerate injectedTemplate =
     Inr (emptyTemplate\<lparr>onInstall := Some (''rm -rf .'' # defaultCommands)\<rparr>) \<and>
   noCommands ctorTemplate \<and> lineSafe ctorTemplate \<and>
   generateKlore ctorTemplate = Inl TypeError \<and>
   regenerate ctorTemplate = Inl TypeError"
proof -
  have "noCommands injectedTemplate"
    unfolding injectedTemplate_def emptyTemplate_def noCommands_def by simp
  moreover have pg: "plainGroups injectedTemplate"
    unfolding injectedTemplate_def emptyTemplate_def by code_simp
  moreover have "parseLoop ([''ON'', ''RUN \"rm -rf .\" Template'', ''NAME \"shop-on-run-\"rm--rf-.\"-template\"'',
      ''VERSION \"1.0.0\"'', ''ON INSTALL'', copyLine] @ map trim defaultRunLines @ [''END'']) 0 emptyTemplate
      = Inr (emptyTemplate\<lparr>onInstall := Some (''rm -rf .'' # defaultCommands)\<rparr>)"
    unfolding copyLine_def defaultRunLines_def emptyTemplate_def defaultCommands_def
    by code_simp
  moreover have "noCommands ctorTemplate"
    unfolding ctorTemplate_def emptyTemplate_def noCommands_def by simp
  moreover have "lineSafe ctorTemplate"
    unfolding ctorTemplate_def emptyTemplate_def lineSafe_def singleLine_def by code_simp
  moreover have "generateKlore ctorTemplate = Inl TypeError"
    unfolding ctorTemplate_def emptyTemplate_def by code_simp
  ultimately show ?thesis
    by (simp add: regenerate_def generateKlore_plain parseKlore_def parse_def injected_lines)
qed

text \<open>
  C10, amended: for every template without install commands, without a line feed in
  its name, version, framework, hints, variable names, replacement variables and file
  patterns, and with no variable or replacement filed under a group named like a
  property of \<^verbatim>\<open>Object.prototype\<close>, \<^verbatim>\<open>generateKlore\<close> returns a text with the five default
  RUN commands and \<^verbatim>\<open>parseKlore(generateKlore(template))\<close> has exactly those five commands
  as its \<^verbatim>\<open>onInstall\<close> list.
\<close>

theorem default_commands_roundtrip:
  assumes "noCommands template" and "lineSafe template" and "plainGroups template"
  shows "\<exists>content t'. generateKlore template = Inr content \<and> parseKlore content = Inr t' \<and>
           regenerate template = Inr t' \<and> onInstall t' = Some defaultCommands"
  using generateKlore_plain [OF assms(3)] regenerate_plain [OF assms(3) assms(2)]
    parse_generated [OF assms(2)]
    parsedBack_onInstall_default [OF noCommands_runLines [OF assms(1)]]
  by simp

theorem default_commands_roundtrip_witness:
  "noCommands shopTemplate \<and> lineSafe shopTemplate \<and> plainGroups shopTemplate \<and>
   (\<exists>content t'. generateKlore shopTemplate = Inr content \<and> parseKlore content = Inr t' \<and>
      regenerate shopTemplate = Inr t' \<and> onInstall t' = Some defaultCommands)"
proof -
  have h1: "noCommands shopTemplate"
    unfolding shopTemplate_def emptyTemplate_def noCommands_def by simp
  have h2: "lineSafe shopTemplate"
    unfolding shopTemplate_def emptyTemplate_def lineSafe_def singleLine_def by code_simp
  have h3: "plainGroups shopTemplate"
    unfolding shopTemplate_def emptyTemplate_def by code_simp
  from default_commands_roundtrip [OF h1 h2 h3] h1 h2 h3 show ?thesis by simp
qed

end
